theory Spec2Isabelle
  imports Main
begin

unbundle bit_operations_syntax

section \<open>Python strings\<close>

text \<open>
  A Python \<open>str\<close> is a sequence of Unicode code points (\<open>ord\<close> values from \<open>0\<close> to
  \<open>0x10FFFF\<close>, lone surrogates included), so it is modelled as a list of naturals and not
  as a list of 8-bit characters. \<open>pystr_of\<close> reads an ASCII literal as such a string.
\<close>

type_synonym pystr = "nat list"

definition pystr_of :: "string \<Rightarrow> pystr" where
  "pystr_of cs = map of_char cs"

definition valid_pystr :: "pystr \<Rightarrow> bool" where
  \<comment> \<open>the range of \<open>ord\<close>: every code point is at most \<open>0x10FFFF\<close>\<close>
  "valid_pystr s = list_all (\<lambda>c. c < 0x110000) s"

fun str_join :: "pystr \<Rightarrow> pystr list \<Rightarrow> pystr" where
  \<comment> \<open>\<open>sep.join(parts)\<close>\<close>
  "str_join sep [] = []"
| "str_join sep [x] = x"
| "str_join sep (x # y # ys) = x @ sep @ str_join sep (y # ys)"

section \<open>Python values and dictionaries\<close>

text \<open>
  The values that \<open>json.dumps\<close> is given and that \<open>json.loads\<close> builds. A \<open>dict\<close> keeps
  its keys in insertion order, so it is an association list; numbers do not occur in the
  program and are left out.
\<close>

datatype pyval =
    PyNone
  | PyBool bool
  | PyStr pystr
  | PyList "pyval list"
  | PyDict "(pystr \<times> pyval) list"

fun dict_setitem :: "(pystr \<times> pyval) list \<Rightarrow> pystr \<Rightarrow> pyval \<Rightarrow> (pystr \<times> pyval) list" where
  \<comment> \<open>\<open>d[k] = v\<close>: an existing key keeps its place, a new key goes last\<close>
  "dict_setitem [] k v = [(k, v)]"
| "dict_setitem ((k', v') # d) k v =
     (if k' = k then (k', v) # d else (k', v') # dict_setitem d k v)"

definition py_dict :: "(pystr \<times> pyval) list \<Rightarrow> (pystr \<times> pyval) list" where
  \<comment> \<open>a dict display \<open>{k1: v1, ...}\<close> and \<open>dict(pairs)\<close>: the items are stored left to right\<close>
  "py_dict items = foldl (\<lambda>d (k, v). dict_setitem d k v) [] items"

section \<open>\<open>json.dumps\<close> with its default settings\<close>

text \<open>
  \<open>json/encoder.py\<close>, for \<open>ensure_ascii=True\<close>, \<open>indent=None\<close>, \<open>sort_keys=False\<close> and
  the default separators \<open>', '\<close> and \<open>': '\<close>.

  \<^verbatim>\<open>
  ESCAPE_ASCII = re.compile(r'([\\"]|[^\ -~])')
  ESCAPE_DCT = {'\\': '\\\\', '"': '\\"', '\b': '\\b', '\f': '\\f',
                '\n': '\\n', '\r': '\\r', '\t': '\\t'}
  for i in range(0x20):
      ESCAPE_DCT.setdefault(chr(i), '\\u{0:04x}'.format(i))

  def py_encode_basestring_ascii(s):
      def replace(match):
          s = match.group(0)
          try:
              return ESCAPE_DCT[s]
          except KeyError:
              n = ord(s)
              if n < 0x10000:
                  return '\\u{0:04x}'.format(n)
              else:
                  n -= 0x10000
                  s1 = 0xd800 | ((n >> 10) & 0x3ff)
                  s2 = 0xdc00 | (n & 0x3ff)
                  return '\\u{0:04x}\\u{1:04x}'.format(s1, s2)
      return '"' + ESCAPE_ASCII.sub(replace, s) + '"'
  \<close>
\<close>

definition hex_digit :: "nat \<Rightarrow> nat" where
  \<comment> \<open>the lowercase hexadecimal digit for a value below 16: \<open>'0'\<close> is 48, \<open>'a'\<close> is 97\<close>
  "hex_digit d = (if d < 10 then 48 + d else 87 + d)"

fun hex_digits :: "nat \<Rightarrow> pystr" where
  "hex_digits n =
     (if n < 16 then [hex_digit n] else hex_digits (n div 16) @ [hex_digit (n mod 16)])"

declare hex_digits.simps [simp del]

definition format_04x :: "nat \<Rightarrow> pystr" where
  \<comment> \<open>\<open>'{0:04x}'.format(n)\<close>: lowercase hexadecimal, padded with \<open>'0'\<close> to four digits\<close>
  "format_04x n = (let ds = hex_digits n in replicate (4 - length ds) 48 @ ds)"

definition u_escape :: "nat \<Rightarrow> pystr" where
  \<comment> \<open>\<open>'\\u{0:04x}'.format(n)\<close>: backslash (92), \<open>u\<close> (117), four digits\<close>
  "u_escape n = [92, 117] @ format_04x n"

definition ESCAPE_DCT :: "nat \<Rightarrow> pystr option" where
  "ESCAPE_DCT c =
     (if c = 92 then Some [92, 92]
      else if c = 34 then Some [92, 34]
      else if c = 8 then Some [92, 98]
      else if c = 12 then Some [92, 102]
      else if c = 10 then Some [92, 110]
      else if c = 13 then Some [92, 114]
      else if c = 9 then Some [92, 116]
      else if c < 0x20 then Some (u_escape c)
      else None)"

definition replace :: "nat \<Rightarrow> pystr" where
  "replace c =
     (case ESCAPE_DCT c of
        Some r \<Rightarrow> r
      | None \<Rightarrow>
          (let n = c in
           if n < 0x10000 then u_escape n
           else
             (let n = n - 0x10000;
                  s1 = 0xd800 OR (drop_bit 10 n AND 0x3ff);
                  s2 = 0xdc00 OR (n AND 0x3ff)
              in u_escape s1 @ u_escape s2)))"

definition ESCAPE_ASCII :: "nat \<Rightarrow> bool" where
  \<comment> \<open>the characters the pattern matches: backslash, double quote, and all outside \<open>' '..'~'\<close>\<close>
  "ESCAPE_ASCII c \<longleftrightarrow> c = 92 \<or> c = 34 \<or> c < 32 \<or> 126 < c"

definition escape_char :: "nat \<Rightarrow> pystr" where
  "escape_char c = (if ESCAPE_ASCII c then replace c else [c])"

definition py_encode_basestring_ascii :: "pystr \<Rightarrow> pystr" where
  "py_encode_basestring_ascii s = [34] @ concat (map escape_char s) @ [34]"

fun json_dumps :: "pyval \<Rightarrow> pystr" where
  "json_dumps PyNone = pystr_of ''null''"
| "json_dumps (PyBool b) = (if b then pystr_of ''true'' else pystr_of ''false'')"
| "json_dumps (PyStr s) = py_encode_basestring_ascii s"
| "json_dumps (PyList xs) =
     (if xs = [] then pystr_of ''[]''
      else pystr_of ''['' @ str_join (pystr_of '', '') (map json_dumps xs) @ pystr_of '']'')"
| "json_dumps (PyDict d) =
     (if d = [] then pystr_of ''{}''
      else pystr_of ''{''
           @ str_join (pystr_of '', '')
               (map (\<lambda>(k, v). py_encode_basestring_ascii k @ pystr_of '': '' @ json_dumps v) d)
           @ pystr_of ''}'')"

section \<open>\<open>json.loads\<close>\<close>

text \<open>
  \<open>json/decoder.py\<close> and \<open>json/scanner.py\<close> with the default hooks and \<open>strict=True\<close>.
  Positions in the document are modelled by the text that remains to be read. Every
  failure of the decoder is a \<open>JSONDecodeError\<close>. Number literals and the constants
  \<open>NaN\<close>, \<open>Infinity\<close> and \<open>-Infinity\<close> have no counterpart in \<open>pyval\<close>: where Python
  would read one, the model answers \<open>Unmodelled\<close>. The scanner calls itself for each
  nested value; the model bounds these calls by a counter and answers \<open>OutOfFuel\<close>
  when it is used up.
\<close>

datatype decode_error = JSONDecodeError | Unmodelled | OutOfFuel

definition WHITESPACE :: "nat \<Rightarrow> bool" where
  \<comment> \<open>space, tab, line feed, carriage return\<close>
  "WHITESPACE c \<longleftrightarrow> c = 32 \<or> c = 9 \<or> c = 10 \<or> c = 13"

definition skip_ws :: "pystr \<Rightarrow> pystr" where
  "skip_ws s = dropWhile WHITESPACE s"

definition BACKSLASH :: "nat \<Rightarrow> nat option" where
  \<comment> \<open>the character after a backslash, other than \<open>u\<close>, and what it stands for\<close>
  "BACKSLASH esc =
     (if esc = 34 then Some 34
      else if esc = 92 then Some 92
      else if esc = 47 then Some 47
      else if esc = 98 then Some 8
      else if esc = 102 then Some 12
      else if esc = 110 then Some 10
      else if esc = 114 then Some 13
      else if esc = 116 then Some 9
      else None)"

definition hex_value :: "nat \<Rightarrow> nat option" where
  \<comment> \<open>the value of a hexadecimal digit: \<open>0-9\<close>, \<open>a-f\<close>, \<open>A-F\<close>\<close>
  "hex_value c =
     (if 48 \<le> c \<and> c \<le> 57 then Some (c - 48)
      else if 97 \<le> c \<and> c \<le> 102 then Some (c - 87)
      else if 65 \<le> c \<and> c \<le> 70 then Some (c - 55)
      else None)"

definition decode_uXXXX :: "pystr \<Rightarrow> nat option" where
  \<comment> \<open>the four characters after \<open>\\u\<close>, read as a hexadecimal number\<close>
  "decode_uXXXX esc =
     (case map hex_value esc of
        [Some a, Some b, Some c, Some d] \<Rightarrow> Some (((a * 16 + b) * 16 + c) * 16 + d)
      | _ \<Rightarrow> None)"

definition append_char ::
  "nat \<Rightarrow> decode_error + pystr \<times> pystr \<Rightarrow> decode_error + pystr \<times> pystr" where
  "append_char c res = (case res of Inl e \<Rightarrow> Inl e | Inr (cs, rest) \<Rightarrow> Inr (c # cs, rest))"

fun scanstring :: "pystr \<Rightarrow> decode_error + pystr \<times> pystr" where
  "scanstring [] = Inl JSONDecodeError"
| "scanstring (c # r) =
     (if c = 34 then Inr ([], r)
      else if c = 92 then
        (case r of
           [] \<Rightarrow> Inl JSONDecodeError
         | esc # r1 \<Rightarrow>
             if esc \<noteq> 117 then
               (case BACKSLASH esc of
                  None \<Rightarrow> Inl JSONDecodeError
                | Some ch \<Rightarrow> append_char ch (scanstring r1))
             else
               (case decode_uXXXX (take 4 r1) of
                  None \<Rightarrow> Inl JSONDecodeError
                | Some uni \<Rightarrow>
                    if 0xd800 \<le> uni \<and> uni \<le> 0xdbff \<and> take 2 (drop 4 r1) = [92, 117] then
                      (case decode_uXXXX (take 4 (drop 6 r1)) of
                         None \<Rightarrow> Inl JSONDecodeError
                       | Some uni2 \<Rightarrow>
                           if 0xdc00 \<le> uni2 \<and> uni2 \<le> 0xdfff then
                             append_char
                               (0x10000 + (push_bit 10 (uni - 0xd800) OR (uni2 - 0xdc00)))
                               (scanstring (drop 10 r1))
                           else append_char uni (scanstring (drop 4 r1)))
                    else append_char uni (scanstring (drop 4 r1))))
      else if c < 32 then Inl JSONDecodeError
      else append_char c (scanstring r))"

definition number_or_constant :: "pystr \<Rightarrow> bool" where
  \<comment> \<open>the text starts with a number literal (an optional minus sign and a digit) or with
      one of the constants\<close>
  "number_or_constant s \<longleftrightarrow>
     (case s of
        [] \<Rightarrow> False
      | c # r \<Rightarrow>
          (48 \<le> c \<and> c \<le> 57)
          \<or> (c = 45 \<and> (case r of [] \<Rightarrow> False | d # _ \<Rightarrow> 48 \<le> d \<and> d \<le> 57))
          \<or> take 3 s = pystr_of ''NaN''
          \<or> take 8 s = pystr_of ''Infinity''
          \<or> take 9 s = pystr_of ''-Infinity'')"

fun scan_once :: "nat \<Rightarrow> pystr \<Rightarrow> decode_error + pyval \<times> pystr"
  and JSONObject_items ::
    "nat \<Rightarrow> (pystr \<times> pyval) list \<Rightarrow> pystr \<Rightarrow> decode_error + pyval \<times> pystr"
  and JSONArray_items :: "nat \<Rightarrow> pyval list \<Rightarrow> pystr \<Rightarrow> decode_error + pyval \<times> pystr"
where
  "scan_once 0 s = Inl OutOfFuel"
| "scan_once (Suc n) s =
     (case s of
        [] \<Rightarrow> Inl JSONDecodeError
      | c # r \<Rightarrow>
          if c = 34 then
            (case scanstring r of Inl e \<Rightarrow> Inl e | Inr (str, rest) \<Rightarrow> Inr (PyStr str, rest))
          else if c = 123 then
            (case skip_ws r of
               [] \<Rightarrow> Inl JSONDecodeError
             | c1 # r1 \<Rightarrow>
                 if c1 = 125 then Inr (PyDict [], r1)
                 else if c1 = 34 then JSONObject_items n [] r1
                 else Inl JSONDecodeError)
          else if c = 91 then
            (case skip_ws r of
               [] \<Rightarrow> Inl JSONDecodeError
             | c1 # r1 \<Rightarrow>
                 if c1 = 93 then Inr (PyList [], r1)
                 else JSONArray_items n [] (c1 # r1))
          else if take 4 s = pystr_of ''null'' then Inr (PyNone, drop 4 s)
          else if take 4 s = pystr_of ''true'' then Inr (PyBool True, drop 4 s)
          else if take 5 s = pystr_of ''false'' then Inr (PyBool False, drop 5 s)
          else if number_or_constant s then Inl Unmodelled
          else Inl JSONDecodeError)"
| "JSONObject_items 0 pairs s = Inl OutOfFuel"
| "JSONObject_items (Suc n) pairs s =
     (case scanstring s of
        Inl e \<Rightarrow> Inl e
      | Inr (key, s1) \<Rightarrow>
          (case skip_ws s1 of
             [] \<Rightarrow> Inl JSONDecodeError
           | c1 # s2 \<Rightarrow>
               if c1 \<noteq> 58 then Inl JSONDecodeError
               else
                 (case scan_once n (skip_ws s2) of
                    Inl e \<Rightarrow> Inl e
                  | Inr (val, s3) \<Rightarrow>
                      (case skip_ws s3 of
                         [] \<Rightarrow> Inl JSONDecodeError
                       | c2 # s4 \<Rightarrow>
                           if c2 = 125 then Inr (PyDict (py_dict (pairs @ [(key, val)])), s4)
                           else if c2 \<noteq> 44 then Inl JSONDecodeError
                           else
                             (case skip_ws s4 of
                                [] \<Rightarrow> Inl JSONDecodeError
                              | c3 # s5 \<Rightarrow>
                                  if c3 \<noteq> 34 then Inl JSONDecodeError
                                  else JSONObject_items n (pairs @ [(key, val)]) s5)))))"
| "JSONArray_items 0 vals s = Inl OutOfFuel"
| "JSONArray_items (Suc n) vals s =
     (case scan_once n s of
        Inl e \<Rightarrow> Inl e
      | Inr (val, s1) \<Rightarrow>
          (case skip_ws s1 of
             [] \<Rightarrow> Inl JSONDecodeError
           | c1 # s2 \<Rightarrow>
               if c1 = 93 then Inr (PyList (vals @ [val]), s2)
               else if c1 \<noteq> 44 then Inl JSONDecodeError
               else JSONArray_items n (vals @ [val]) (skip_ws s2)))"

definition json_loads :: "pystr \<Rightarrow> decode_error + pyval" where
  "json_loads s =
     (if take 1 s = [0xfeff] then Inl JSONDecodeError
      else
        (case scan_once (2 * length s + 2) (skip_ws s) of
           Inl e \<Rightarrow> Inl e
         | Inr (obj, rest) \<Rightarrow> if skip_ws rest = [] then Inr obj else Inl JSONDecodeError))"

section \<open>The host and the two modules\<close>

text \<open>
  \<open>platform.system()\<close>, \<open>platform.machine()\<close> and \<open>platform.platform()\<close> take no argument
  and read the host. A host is modelled by what each of the three calls does on it: it
  returns a string or raises. Further components of the host (the extension of the
  record) are whatever else is true of the machine and the process.
\<close>

datatype py_exception = PyException (exc_class: string) (exc_message: string)

record host =
  platform_system :: "py_exception + pystr"
  platform_machine :: "py_exception + pystr"
  platform_platform :: "py_exception + pystr"

text \<open>
  \<open>src/tools.py\<close>:
  \<^verbatim>\<open>
  def get_host_info() -> str:
      system_info = {
          "os": platform.system(),
          "architecture": platform.machine(),
          "platform": platform.platform()
      }
      return json.dumps(system_info)

  if __name__ == "__main__":
      print(get_host_info())
  \<close>
  The dict display evaluates its values top to bottom; the first call that raises ends
  the function with that exception.
\<close>

definition tools_get_host_info :: "'a host_scheme \<Rightarrow> py_exception + pystr" where
  "tools_get_host_info h =
     (case platform_system h of Inl e \<Rightarrow> Inl e | Inr v_os \<Rightarrow>
     (case platform_machine h of Inl e \<Rightarrow> Inl e | Inr v_architecture \<Rightarrow>
     (case platform_platform h of Inl e \<Rightarrow> Inl e | Inr v_platform \<Rightarrow>
        (let system_info = py_dict
               [(pystr_of ''os'', PyStr v_os),
                (pystr_of ''architecture'', PyStr v_architecture),
                (pystr_of ''platform'', PyStr v_platform)]
         in Inr (json_dumps (PyDict system_info))))))"

text \<open>
  What running a module as a process leaves behind: the text written to standard output,
  the exception that ended it (if any) and the exit status of the interpreter, which is
  0 when the module body runs to its end and 1 when an exception is not caught.
  \<open>print(x)\<close> writes \<open>x\<close> and a newline (code point 10).
\<close>

record process =
  stdout :: pystr
  uncaught :: "py_exception option"
  exit_status :: nat

definition tools_module :: "string \<Rightarrow> 'a host_scheme \<Rightarrow> process" where
  "tools_module name h =
     (if name = ''__main__'' then
        (case tools_get_host_info h of
           Inl e \<Rightarrow> \<lparr>stdout = [], uncaught = Some e, exit_status = 1\<rparr>
         | Inr s \<Rightarrow> \<lparr>stdout = s @ [10], uncaught = None, exit_status = 0\<rparr>)
      else \<lparr>stdout = [], uncaught = None, exit_status = 0\<rparr>)"

text \<open>
  \<open>src/main.py\<close>:
  \<^verbatim>\<open>
  mcp = FastMCP("System Info Service")

  @mcp.tool()
  def get_host_info() -> str:
      system_info = {
          "os": platform.system(),
          "architecture": platform.machine(),
          "platform": platform.platform()
      }
      return json.dumps(system_info)

  mcp.run()
  \<close>
  The framework is an external library. Its decorator \<open>tool()\<close> adds the function to the
  server's tools under the function's own name and returns the function as it is; the
  serve loop of \<open>mcp.run()\<close> is not modelled.
\<close>

definition main_get_host_info :: "'a host_scheme \<Rightarrow> py_exception + pystr" where
  "main_get_host_info h =
     (case platform_system h of Inl e \<Rightarrow> Inl e | Inr v_os \<Rightarrow>
     (case platform_machine h of Inl e \<Rightarrow> Inl e | Inr v_architecture \<Rightarrow>
     (case platform_platform h of Inl e \<Rightarrow> Inl e | Inr v_platform \<Rightarrow>
        (let system_info = py_dict
               [(pystr_of ''os'', PyStr v_os),
                (pystr_of ''architecture'', PyStr v_architecture),
                (pystr_of ''platform'', PyStr v_platform)]
         in Inr (json_dumps (PyDict system_info))))))"

record 'a FastMCP =
  server_name :: string
  tools :: "(string \<times> ('a host_scheme \<Rightarrow> py_exception + pystr)) list"

definition FastMCP_tool ::
  "'a FastMCP \<Rightarrow> string \<Rightarrow> ('a host_scheme \<Rightarrow> py_exception + pystr)
     \<Rightarrow> 'a FastMCP \<times> ('a host_scheme \<Rightarrow> py_exception + pystr)" where
  "FastMCP_tool mcp fn_name fn = (mcp\<lparr>tools := tools mcp @ [(fn_name, fn)]\<rparr>, fn)"

definition main_module ::
  "'a FastMCP \<times> ('a host_scheme \<Rightarrow> py_exception + pystr)" where
  \<comment> \<open>the server and the module-level name \<open>get_host_info\<close> when \<open>mcp.run()\<close> is reached\<close>
  "main_module =
     (let mcp = \<lparr>server_name = ''System Info Service'', tools = []\<rparr>
      in FastMCP_tool mcp ''get_host_info'' main_get_host_info)"

text \<open>
  The host of Scenario A of the specification: a Linux machine on which all three calls
  succeed.
\<close>

definition scenario_A :: host where
  "scenario_A =
     \<lparr>platform_system = Inr (pystr_of ''Linux''),
      platform_machine = Inr (pystr_of ''x86_64''),
      platform_platform = Inr (pystr_of ''Linux-5.15.0-x86_64-with-glibc2.31'')\<rparr>"

section \<open>The caches of the \<open>platform\<close> module and repeated invocations\<close>

text \<open>
  Inside one interpreter the three functions keep what they have found, in
  \<open>platform.py\<close>:
  \<^verbatim>\<open>
  _uname_cache = None

  def uname():
      global _uname_cache
      if _uname_cache is not None:
          return _uname_cache
      ...                      # os.uname() and the fallbacks
      _uname_cache = uname_result(*map(_unknown_as_blank, vals))
      return _uname_cache

  def system():  return uname().system
  def machine(): return uname().machine

  _platform_cache = {}

  def platform(aliased=0, terse=0):
      result = _platform_cache.get((aliased, terse), None)
      if result is not None:
          return result
      system, node, release, version, machine, processor = uname()
      ...                      # the platform string, from these and further reads
      _platform_cache[(aliased, terse)] = platform
      return platform
  \<close>
  So a call may change the interpreter, and what it answers may come from an earlier
  call. The state of the interpreter is made explicit here: the operating system as it
  is now (what the elided parts compute: the body of \<open>uname()\<close> on a cache miss, and the
  platform string that the body of \<open>platform()\<close> builds from a \<open>uname_result\<close>; either
  may raise), and the two caches. Each function takes the state and returns its answer
  with the new state. \<open>json.dumps\<close> keeps nothing between calls (its encoder and the
  table for circular references are built afresh from constant settings), so it stays a
  function.
\<close>

record uname_result =
  system :: pystr
  node :: pystr
  release :: pystr
  version :: pystr
  machine :: pystr

record operating_system =
  os_uname :: "py_exception + uname_result"
  os_platform :: "uname_result \<Rightarrow> py_exception + pystr"

record interpreter =
  os :: operating_system
  uname_cache :: "uname_result option"
  platform_cache :: "pystr option"

definition run_uname :: "interpreter \<Rightarrow> (py_exception + uname_result) \<times> interpreter" where
  "run_uname st =
     (case uname_cache st of
        Some u \<Rightarrow> (Inr u, st)
      | None \<Rightarrow>
          (case os_uname (os st) of
             Inl e \<Rightarrow> (Inl e, st)
           | Inr u \<Rightarrow> (Inr u, st\<lparr>uname_cache := Some u\<rparr>)))"

definition run_system :: "interpreter \<Rightarrow> (py_exception + pystr) \<times> interpreter" where
  "run_system st =
     (case run_uname st of (Inl e, st') \<Rightarrow> (Inl e, st') | (Inr u, st') \<Rightarrow> (Inr (system u), st'))"

definition run_machine :: "interpreter \<Rightarrow> (py_exception + pystr) \<times> interpreter" where
  "run_machine st =
     (case run_uname st of (Inl e, st') \<Rightarrow> (Inl e, st') | (Inr u, st') \<Rightarrow> (Inr (machine u), st'))"

definition run_platform :: "interpreter \<Rightarrow> (py_exception + pystr) \<times> interpreter" where
  "run_platform st =
     (case platform_cache st of
        Some p \<Rightarrow> (Inr p, st)
      | None \<Rightarrow>
          (case run_uname st of
             (Inl e, st') \<Rightarrow> (Inl e, st')
           | (Inr u, st') \<Rightarrow>
               (case os_platform (os st') u of
                  Inl e \<Rightarrow> (Inl e, st')
                | Inr p \<Rightarrow> (Inr p, st'\<lparr>platform_cache := Some p\<rparr>))))"

text \<open>
  \<open>get_host_info\<close> of \<open>src/tools.py\<close> in this state-passing form: the same three calls in
  the same order, each in the state its predecessor left.
\<close>

definition run_get_host_info :: "interpreter \<Rightarrow> (py_exception + pystr) \<times> interpreter" where
  "run_get_host_info st =
     (case run_system st of (Inl e, st1) \<Rightarrow> (Inl e, st1) | (Inr v_os, st1) \<Rightarrow>
     (case run_machine st1 of (Inl e, st2) \<Rightarrow> (Inl e, st2) | (Inr v_architecture, st2) \<Rightarrow>
     (case run_platform st2 of (Inl e, st3) \<Rightarrow> (Inl e, st3) | (Inr v_platform, st3) \<Rightarrow>
        (let system_info = py_dict
               [(pystr_of ''os'', PyStr v_os),
                (pystr_of ''architecture'', PyStr v_architecture),
                (pystr_of ''platform'', PyStr v_platform)]
         in (Inr (json_dumps (PyDict system_info)), st3)))))"

text \<open>
  What the three functions answer when called in a given state, each on its own: the values
  the operating system facility reports to the program at that moment.
\<close>

definition reports :: "interpreter \<Rightarrow> host" where
  "reports st =
     \<lparr>platform_system = fst (run_system st),
      platform_machine = fst (run_machine st),
      platform_platform = fst (run_platform st)\<rparr>"

text \<open>
  Two interpreters on which the three functions answer as on the host of Scenario A: one
  that has not called them yet, and one that holds the answers in its caches while the
  operating system underneath no longer gives them.
\<close>

definition fresh_interpreter :: interpreter where
  "fresh_interpreter =
     \<lparr>os = \<lparr>os_uname = Inr \<lparr>system = pystr_of ''Linux'', node = pystr_of ''box'',
                              release = pystr_of ''5.15.0'', version = pystr_of ''#1 SMP'',
                              machine = pystr_of ''x86_64''\<rparr>,
             os_platform = (\<lambda>u. Inr (system u @ pystr_of ''-'' @ release u @ pystr_of ''-''
                                       @ machine u @ pystr_of ''-with-glibc2.31''))\<rparr>,
      uname_cache = None,
      platform_cache = None\<rparr>"

definition warm_interpreter :: interpreter where
  "warm_interpreter =
     \<lparr>os = \<lparr>os_uname = Inl (PyException ''OSError'' ''uname failed''),
             os_platform = (\<lambda>u. Inl (PyException ''OSError'' ''uname failed''))\<rparr>,
      uname_cache = Some \<lparr>system = pystr_of ''Linux'', node = pystr_of ''box'',
                           release = pystr_of ''5.15.0'', version = pystr_of ''#1 SMP'',
                           machine = pystr_of ''x86_64''\<rparr>,
      platform_cache = Some (pystr_of ''Linux-5.15.0-x86_64-with-glibc2.31'')\<rparr>"

section \<open>Notions used to state the properties\<close>

definition printable :: "nat \<Rightarrow> bool" where
  \<comment> \<open>the printable ASCII characters, \<open>' '\<close> to \<open>'~'\<close>\<close>
  "printable c \<longleftrightarrow> 32 \<le> c \<and> c \<le> 126"

definition is_high_surrogate :: "nat \<Rightarrow> bool" where
  "is_high_surrogate c \<longleftrightarrow> 0xd800 \<le> c \<and> c \<le> 0xdbff"

definition is_low_surrogate :: "nat \<Rightarrow> bool" where
  "is_low_surrogate c \<longleftrightarrow> 0xdc00 \<le> c \<and> c \<le> 0xdfff"

fun adjacent_surrogates :: "pystr \<Rightarrow> bool" where
  \<comment> \<open>somewhere in the string a high surrogate is directly followed by a low surrogate\<close>
  "adjacent_surrogates (h # l # r) =
     (if is_high_surrogate h \<and> is_low_surrogate l then True else adjacent_surrogates (l # r))"
| "adjacent_surrogates [h] = False"
| "adjacent_surrogates [] = False"

fun join_surrogates :: "pystr \<Rightarrow> pystr" where
  \<comment> \<open>reading left to right, each high surrogate directly followed by a low surrogate is
      replaced by the code point above \<open>0xFFFF\<close> that the two encode in UTF-16\<close>
  "join_surrogates (h # l # r) =
     (if is_high_surrogate h \<and> is_low_surrogate l
      then (0x10000 + ((h - 0xd800) * 1024 + (l - 0xdc00))) # join_surrogates r
      else h # join_surrogates (l # r))"
| "join_surrogates [h] = [h]"
| "join_surrogates [] = []"

definition utf16_units :: "pystr \<Rightarrow> pystr" where
  \<comment> \<open>every code point above \<open>0xFFFF\<close> is replaced by its two UTF-16 surrogates\<close>
  "utf16_units s =
     concat (map (\<lambda>c. if c < 0x10000 then [c]
                       else [0xd800 + (c - 0x10000) div 1024 mod 1024,
                             0xdc00 + (c - 0x10000) mod 1024]) s)"

text \<open>
  Two further hosts: one on which the machine type cannot be determined, so that
  \<open>platform.machine()\<close> returns the empty string (as its documentation says), and one on
  which \<open>platform.machine()\<close> raises.
\<close>

definition undetermined_host :: host where
  "undetermined_host =
     \<lparr>platform_system = Inr (pystr_of ''Linux''),
      platform_machine = Inr [],
      platform_platform = Inr (pystr_of ''Linux-5.15.0-with-glibc2.31'')\<rparr>"

definition failing_host :: host where
  "failing_host =
     \<lparr>platform_system = Inr (pystr_of ''Linux''),
      platform_machine = Inl (PyException ''OSError'' ''uname failed''),
      platform_platform = Inr (pystr_of ''Linux-5.15.0-x86_64-with-glibc2.31'')\<rparr>"

fun is_u_escape :: "pystr \<Rightarrow> bool" where
  \<comment> \<open>the text is one escape \<open>\\uXXXX\<close>: backslash, \<open>u\<close>, four hexadecimal digits\<close>
  "is_u_escape [b, u, d1, d2, d3, d4] =
     (b = 92 \<and> u = 117 \<and> hex_value d1 \<noteq> None \<and> hex_value d2 \<noteq> None
      \<and> hex_value d3 \<noteq> None \<and> hex_value d4 \<noteq> None)"
| "is_u_escape t = False"

definition host_info_text :: "pystr \<Rightarrow> pystr \<Rightarrow> pystr \<Rightarrow> pystr" where
  \<comment> \<open>the text \<open>{"os": A, "architecture": B, "platform": C}\<close>, where \<open>A\<close>, \<open>B\<close> and \<open>C\<close> are
      the JSON string literals of the three arguments\<close>
  \<open>host_info_text a b c =
     pystr_of ''{"os": '' @ py_encode_basestring_ascii a
     @ pystr_of '', "architecture": '' @ py_encode_basestring_ascii b
     @ pystr_of '', "platform": '' @ py_encode_basestring_ascii c
     @ pystr_of ''}''\<close>

section \<open>Properties of the encoder\<close>

lemma escape_char_plain:
  "32 \<le> c \<Longrightarrow> c \<le> 126 \<Longrightarrow> c \<noteq> 34 \<Longrightarrow> c \<noteq> 92 \<Longrightarrow> escape_char c = [c]"
  by (simp add: escape_char_def ESCAPE_ASCII_def)

lemma hex_digit_printable: "d < 16 \<Longrightarrow> printable (hex_digit d)"
  by (simp add: hex_digit_def printable_def)

lemma hex_digits_printable: "list_all printable (hex_digits n)"
proof (induction n rule: hex_digits.induct)
  case (1 n)
  show ?case
  proof (cases "n < 16")
    case True
    then show ?thesis by (simp add: hex_digits.simps[of n] hex_digit_printable)
  next
    case False
    with "1" show ?thesis by (simp add: hex_digits.simps[of n] hex_digit_printable)
  qed
qed

lemma replicate_printable: "list_all printable (replicate k 48)"
  by (induction k) (simp_all add: printable_def)

lemma format_04x_printable: "list_all printable (format_04x n)"
  by (simp add: format_04x_def Let_def hex_digits_printable replicate_printable)

lemma u_escape_printable: "list_all printable (u_escape n)"
  by (simp add: u_escape_def format_04x_printable) (simp add: printable_def)

lemma replace_printable: "list_all printable (replace c)"
  by (auto simp: replace_def ESCAPE_DCT_def Let_def u_escape_printable  split: option.splits if_splits)
     (simp_all add: printable_def)

lemma escape_char_printable: "list_all printable (escape_char c)"
  by (simp add: escape_char_def replace_printable) (simp add: ESCAPE_ASCII_def printable_def)

lemma concat_escape_printable: "list_all printable (concat (map escape_char s))"
  by (induction s) (simp_all add: escape_char_printable)

lemma encode_printable: "list_all printable (py_encode_basestring_ascii s)"
  by (simp add: py_encode_basestring_ascii_def concat_escape_printable) (simp add: printable_def)

lemma hex_digits_small: "n < 16 \<Longrightarrow> hex_digits n = [hex_digit n]"
  by (simp add: hex_digits.simps[of n])

lemma hex_digits_step:
  "16 \<le> n \<Longrightarrow> hex_digits n = hex_digits (n div 16) @ [hex_digit (n mod 16)]"
  by (simp add: hex_digits.simps[of n])

lemma format_04x_eq:
  assumes "n < 65536"
  shows "format_04x n =
    [hex_digit (n div 4096), hex_digit (n div 256 mod 16), hex_digit (n div 16 mod 16),
     hex_digit (n mod 16)]"
proof -
  have z: "hex_digit 0 = 48" by (simp add: hex_digit_def)
  have d2: "n div 16 div 16 = n div 256" and d3: "n div 16 div 16 div 16 = n div 4096"
    and d4: "n div 256 div 16 = n div 4096"
    by (simp_all add: div_mult2_eq[symmetric])
  consider "n < 16" | "16 \<le> n" "n < 256" | "256 \<le> n" "n < 4096" | "4096 \<le> n"
    by linarith
  then show ?thesis
  proof cases
    case 1
    then have "hex_digits n = [hex_digit n]" by (rule hex_digits_small)
    with 1 show ?thesis by (simp add: format_04x_def z numeral_3_eq_3)
  next
    case 2
    then have "hex_digits n = [hex_digit (n div 16), hex_digit (n mod 16)]"
      by (simp add: hex_digits_step hex_digits_small)
    with 2 show ?thesis by (simp add: format_04x_def z numeral_2_eq_2)
  next
    case 3
    then have a: "16 \<le> n div 16" "n div 16 div 16 < 16" by (simp_all add: d2)
    from 3 have "hex_digits n = hex_digits (n div 16) @ [hex_digit (n mod 16)]"
      by (simp add: hex_digits_step)
    also have "hex_digits (n div 16) = [hex_digit (n div 16 div 16), hex_digit (n div 16 mod 16)]"
      using a by (simp add: hex_digits_step hex_digits_small)
    finally show ?thesis using 3 by (simp add: format_04x_def z d2)
  next
    case 4
    with assms have a: "16 \<le> n div 16" "16 \<le> n div 16 div 16" "n div 16 div 16 div 16 < 16"
      by (simp_all add: d2 d3)
    from 4 have "hex_digits n = hex_digits (n div 16) @ [hex_digit (n mod 16)]"
      by (simp add: hex_digits_step)
    also have "hex_digits (n div 16) =
        [hex_digit (n div 16 div 16 div 16), hex_digit (n div 16 div 16 mod 16),
         hex_digit (n div 16 mod 16)]"
      using a by (simp add: hex_digits_step hex_digits_small)
    finally show ?thesis using 4 assms by (simp add: format_04x_def d2 d3 d4)
  qed
qed

lemma hex_value_hex_digit: "d < 16 \<Longrightarrow> hex_value (hex_digit d) = Some d"
  by (simp add: hex_value_def hex_digit_def)

lemma decode_format_04x:
  assumes "n < 65536"
  shows "decode_uXXXX (format_04x n) = Some n"
proof -
  have b: "n div 4096 < 16" using assms by simp
  have d2: "n div 16 div 16 = n div 256" and d3: "n div 256 div 16 = n div 4096"
    by (simp_all add: div_mult2_eq[symmetric])
  have "n div 4096 * 16 + n div 256 mod 16 = n div 256"
    using div_mult_mod_eq[of "n div 256" 16] by (simp only: d3)
  moreover have "n div 256 * 16 + n div 16 mod 16 = n div 16"
    using div_mult_mod_eq[of "n div 16" 16] by (simp only: d2)
  moreover have "n div 16 * 16 + n mod 16 = n"
    by (rule div_mult_mod_eq)
  ultimately have "((n div 4096 * 16 + n div 256 mod 16) * 16 + n div 16 mod 16) * 16 + n mod 16 = n"
    by (simp only:)
  then show ?thesis
    by (simp add: format_04x_eq[OF assms] decode_uXXXX_def hex_value_hex_digit b)
qed

section \<open>Properties of the decoder\<close>

lemma and_0x3ff: "(x::nat) AND 0x3ff = x mod 1024"
proof -
  have "x AND mask 10 = x mod 2 ^ 10"
    by (simp only: take_bit_eq_mask[symmetric] take_bit_eq_mod)
  then show ?thesis by (simp add: mask_eq_exp_minus_1)
qed

lemma shift_or:
  assumes "b < 1024"
  shows "push_bit 10 (a::nat) OR b = a * 1024 + b"
proof -
  have b: "take_bit 10 b = b" using assms by (simp add: take_bit_nat_eq_self)
  have "push_bit 10 a + take_bit 10 b = push_bit 10 a OR take_bit 10 b"
    by (rule disjunctive_add) (auto simp: bit_push_bit_iff bit_take_bit_iff)
  then show ?thesis by (simp add: b push_bit_eq_mult)
qed

lemma or_d800: "x < 1024 \<Longrightarrow> (0xd800::nat) OR x = 0xd800 + x"
  using shift_or[of x 54] by (simp add: push_bit_eq_mult)

lemma or_dc00: "x < 1024 \<Longrightarrow> (0xdc00::nat) OR x = 0xdc00 + x"
  using shift_or[of x 55] by (simp add: push_bit_eq_mult)

lemma replace_astral:
  assumes "0x10000 \<le> c"
  shows "replace c = u_escape (0xd800 + (c - 0x10000) div 1024 mod 1024)
                   @ u_escape (0xdc00 + (c - 0x10000) mod 1024)"
proof -
  have "ESCAPE_DCT c = None" using assms by (simp add: ESCAPE_DCT_def)
  moreover have "\<not> c < 0x10000" using assms by simp
  ultimately show ?thesis
    by (simp add: replace_def Let_def and_0x3ff drop_bit_eq_div or_d800 or_dc00)
qed

lemma escape_char_astral:
  "0x10000 \<le> c \<Longrightarrow> escape_char c =
     u_escape (0xd800 + (c - 0x10000) div 1024 mod 1024) @ u_escape (0xdc00 + (c - 0x10000) mod 1024)"
  by (simp add: escape_char_def ESCAPE_ASCII_def replace_astral)

lemma escape_char_u:
  "126 < c \<Longrightarrow> c < 0x10000 \<Longrightarrow> escape_char c = u_escape c"
  by (simp add: escape_char_def ESCAPE_ASCII_def replace_def ESCAPE_DCT_def)

lemma escape_char_cases:
  assumes "c < 0x10000"
  obtains (plain) "escape_char c = [c]" "32 \<le> c" "c \<noteq> 34" "c \<noteq> 92" "c \<le> 126"
  | (short) x where "escape_char c = [92, x]" "x \<noteq> 117" "BACKSLASH x = Some c" "c \<le> 126"
  | (uni) "escape_char c = u_escape c" "c < 32 \<or> 126 < c"
proof -
  consider "c = 92" | "c = 34" | "c = 8" | "c = 12" | "c = 10" | "c = 13" | "c = 9"
    | "c < 32" "c \<noteq> 8" "c \<noteq> 12" "c \<noteq> 10" "c \<noteq> 13" "c \<noteq> 9"
    | "126 < c" | "32 \<le> c" "c \<le> 126" "c \<noteq> 34" "c \<noteq> 92"
    by linarith
  then show thesis
  proof cases
    case 8
    then have "escape_char c = u_escape c"
      by (simp add: escape_char_def ESCAPE_ASCII_def replace_def ESCAPE_DCT_def)
    with 8 show ?thesis by (intro uni) simp_all
  next
    case 9
    with assms show ?thesis by (intro uni) (simp_all add: escape_char_u)
  next
    case 10
    then show ?thesis by (intro plain) (simp_all add: escape_char_plain)
  next
    case 1
    then show ?thesis
      by (intro short[of 92])
         (simp_all add: escape_char_def ESCAPE_ASCII_def replace_def ESCAPE_DCT_def BACKSLASH_def)
  next
    case 2
    then show ?thesis
      by (intro short[of 34])
         (simp_all add: escape_char_def ESCAPE_ASCII_def replace_def ESCAPE_DCT_def BACKSLASH_def)
  next
    case 3
    then show ?thesis
      by (intro short[of 98])
         (simp_all add: escape_char_def ESCAPE_ASCII_def replace_def ESCAPE_DCT_def BACKSLASH_def)
  next
    case 4
    then show ?thesis
      by (intro short[of 102])
         (simp_all add: escape_char_def ESCAPE_ASCII_def replace_def ESCAPE_DCT_def BACKSLASH_def)
  next
    case 5
    then show ?thesis
      by (intro short[of 110])
         (simp_all add: escape_char_def ESCAPE_ASCII_def replace_def ESCAPE_DCT_def BACKSLASH_def)
  next
    case 6
    then show ?thesis
      by (intro short[of 114])
         (simp_all add: escape_char_def ESCAPE_ASCII_def replace_def ESCAPE_DCT_def BACKSLASH_def)
  next
    case 7
    then show ?thesis
      by (intro short[of 116])
         (simp_all add: escape_char_def ESCAPE_ASCII_def replace_def ESCAPE_DCT_def BACKSLASH_def)
  qed
qed


lemma length_format_04x: "n < 65536 \<Longrightarrow> length (format_04x n) = 4"
  by (simp add: format_04x_eq)

lemma scan_plain:
  "32 \<le> c \<Longrightarrow> c \<noteq> 34 \<Longrightarrow> c \<noteq> 92 \<Longrightarrow> scanstring (c # w) = append_char c (scanstring w)"
  by simp

lemma scan_short:
  "x \<noteq> 117 \<Longrightarrow> BACKSLASH x = Some c \<Longrightarrow> scanstring (92 # x # w) = append_char c (scanstring w)"
  by simp

lemma scan_u_escape:
  assumes "n < 65536"
  shows "scanstring (u_escape n @ w) =
     (if is_high_surrogate n \<and> take 2 w = [92, 117] then
        (case decode_uXXXX (take 4 (drop 2 w)) of
           None \<Rightarrow> Inl JSONDecodeError
         | Some uni2 \<Rightarrow>
             if is_low_surrogate uni2 then
               append_char (0x10000 + (push_bit 10 (n - 0xd800) OR (uni2 - 0xdc00)))
                 (scanstring (drop 6 w))
             else append_char n (scanstring w))
      else append_char n (scanstring w))"
proof -
  have l: "length (format_04x n) = 4" using assms by (rule length_format_04x)
  have d: "decode_uXXXX (format_04x n) = Some n" using assms by (rule decode_format_04x)
  have "u_escape n @ w = 92 # 117 # (format_04x n @ w)" by (simp add: u_escape_def)
  then show ?thesis
    by (simp add: l d is_high_surrogate_def is_low_surrogate_def split: option.split)
qed

lemma scan_not_high:
  assumes "c < 65536" "\<not> is_high_surrogate c"
  shows "scanstring (escape_char c @ w) = append_char c (scanstring w)"
  using assms(1)
proof (cases rule: escape_char_cases)
  case plain
  then show ?thesis by (simp add: scan_plain)
next
  case (short x)
  then show ?thesis by (simp add: scan_short)
next
  case uni
  with assms show ?thesis by (simp add: scan_u_escape)
qed

lemma take2_escape_char:
  assumes "l < 65536" "\<not> is_low_surrogate l" "take 2 (escape_char l @ w) = [92, 117]"
  shows "escape_char l = u_escape l"
  using assms(1)
proof (cases rule: escape_char_cases)
  case plain
  with assms(3) show ?thesis by simp
next
  case (short x)
  with assms(3) show ?thesis by simp
next
  case uni
  then show ?thesis by simp
qed

lemma scan_high_then_other:
  assumes "h < 65536" "is_high_surrogate h" "l < 65536" "\<not> is_low_surrogate l"
  shows "scanstring (escape_char h @ escape_char l @ w)
         = append_char h (scanstring (escape_char l @ w))"
proof -
  have eh: "escape_char h = u_escape h"
    using assms(1,2) by (simp add: escape_char_u is_high_surrogate_def)
  show ?thesis
  proof (cases "take 2 (escape_char l @ w) = [92, 117]")
    case False
    then show ?thesis by (simp add: eh scan_u_escape[OF assms(1)])
  next
    case True
    then have el: "escape_char l = u_escape l" using assms(3,4) take2_escape_char by blast
    have "take 4 (drop 2 (u_escape l @ w)) = format_04x l"
      using assms(3) by (simp add: u_escape_def length_format_04x)
    then show ?thesis
      using assms True by (simp add: eh el scan_u_escape[OF assms(1)] decode_format_04x)
  qed
qed

lemma scan_high_then_low:
  assumes "is_high_surrogate h" "is_low_surrogate l"
  shows "scanstring (escape_char h @ escape_char l @ w)
         = append_char (0x10000 + ((h - 0xd800) * 1024 + (l - 0xdc00))) (scanstring w)"
proof -
  have h: "h < 65536" "126 < h" using assms(1) by (simp_all add: is_high_surrogate_def)
  have l: "l < 65536" "126 < l" "l - 0xdc00 < 1024"
    using assms(2) unfolding is_low_surrogate_def by linarith+
  have eh: "escape_char h = u_escape h" and el: "escape_char l = u_escape l"
    using h l by (simp_all add: escape_char_u)
  have t: "take 2 (u_escape l @ w) = [92, 117]" by (simp add: u_escape_def)
  have f: "take 4 (drop 2 (u_escape l @ w)) = format_04x l"
    using l(1) by (simp add: u_escape_def length_format_04x)
  have r: "drop 6 (u_escape l @ w) = w"
    using l(1) by (simp add: u_escape_def length_format_04x)
  have "scanstring (u_escape h @ u_escape l @ w)
        = append_char (0x10000 + (push_bit 10 (h - 0xd800) OR (l - 0xdc00))) (scanstring w)"
    unfolding scan_u_escape[OF h(1)] t f r decode_format_04x[OF l(1)] using assms by simp
  then show ?thesis by (simp only: eh el shift_or[OF l(3)])
qed

lemma scan_high_last:
  assumes "is_high_surrogate h"
  shows "scanstring (escape_char h @ 34 # rest) = Inr ([h], rest)"
proof -
  have h: "h < 65536" "126 < h" using assms(1) by (simp_all add: is_high_surrogate_def)
  have eh: "escape_char h = u_escape h" using h by (simp add: escape_char_u)
  show ?thesis by (simp add: eh scan_u_escape[OF h(1)] append_char_def)
qed

lemma scanstring_escaped:
  "list_all (\<lambda>c. c < 65536) t \<Longrightarrow>
   scanstring (concat (map escape_char t) @ 34 # rest) = Inr (join_surrogates t, rest)"
proof (induction t rule: join_surrogates.induct)
  case (1 h l r)
  then have b: "h < 65536" "l < 65536" "list_all (\<lambda>c. c < 65536) r" by simp_all
  show ?case
  proof (cases "is_high_surrogate h \<and> is_low_surrogate l")
    case True
    with "1.IH"(1) b have "scanstring (concat (map escape_char r) @ 34 # rest)
        = Inr (join_surrogates r, rest)" by simp
    with True show ?thesis by (simp add: scan_high_then_low append_char_def)
  next
    case False
    then have js: "join_surrogates (h # l # r) = h # join_surrogates (l # r)" by auto
    define W where "W = concat (map escape_char (l # r)) @ 34 # rest"
    have W: "W = escape_char l @ concat (map escape_char r) @ 34 # rest"
      by (simp add: W_def)
    from False "1.IH"(2) b have ih: "scanstring W = Inr (join_surrogates (l # r), rest)"
      by (simp add: W_def)
    have st: "scanstring (escape_char h @ W) = append_char h (scanstring W)"
    proof (cases "is_high_surrogate h")
      case True
      with False have "\<not> is_low_surrogate l" by simp
      from scan_high_then_other[OF b(1) True b(2) this] show ?thesis by (simp only: W)
    next
      case nh: False
      from scan_not_high[OF b(1) nh] show ?thesis by simp
    qed
    have "concat (map escape_char (h # l # r)) @ 34 # rest = escape_char h @ W"
      by (simp add: W_def)
    then show ?thesis by (simp only: st ih js append_char_def) simp
  qed
next
  case (2 h)
  then have b: "h < 65536" by simp
  show ?case
  proof (cases "is_high_surrogate h")
    case True
    then show ?thesis by (simp add: scan_high_last)
  next
    case False
    from scan_not_high[OF b False] show ?thesis by (simp add: append_char_def)
  qed
next
  case 3
  show ?case by simp
qed

lemma utf16_units_Nil: "utf16_units [] = []"
  by (simp add: utf16_units_def)

lemma utf16_units_bmp: "c < 0x10000 \<Longrightarrow> utf16_units (c # s) = c # utf16_units s"
  by (simp add: utf16_units_def)

lemma utf16_units_astral:
  "\<not> c < 0x10000 \<Longrightarrow> utf16_units (c # s) =
     (0xd800 + (c - 0x10000) div 1024 mod 1024) # (0xdc00 + (c - 0x10000) mod 1024)
       # utf16_units s"
  by (simp add: utf16_units_def)

lemma high_unit: "is_high_surrogate (0xd800 + x mod 1024)"
proof -
  have "x mod 1024 < 1024" by simp
  then show ?thesis unfolding is_high_surrogate_def by linarith
qed

lemma low_unit: "is_low_surrogate (0xdc00 + x mod 1024)"
proof -
  have "x mod 1024 < 1024" by simp
  then show ?thesis unfolding is_low_surrogate_def by linarith
qed

lemma escape_char_high: "is_high_surrogate c \<Longrightarrow> escape_char c = u_escape c"
  by (simp add: escape_char_u is_high_surrogate_def)

lemma escape_char_low: "is_low_surrogate c \<Longrightarrow> escape_char c = u_escape c"
  by (simp add: escape_char_u is_low_surrogate_def)

lemma utf16_units_below: "list_all (\<lambda>c. c < 65536) (utf16_units s)"
proof (induction s)
  case Nil
  show ?case by (simp add: utf16_units_Nil)
next
  case (Cons c s)
  show ?case
  proof (cases "c < 0x10000")
    case True
    with Cons show ?thesis by (simp add: utf16_units_bmp)
  next
    case False
    have "(c - 0x10000) div 1024 mod 1024 < 1024" "(c - 0x10000) mod 1024 < 1024" by simp_all
    then have "0xd800 + (c - 0x10000) div 1024 mod 1024 < 65536"
      "0xdc00 + (c - 0x10000) mod 1024 < 65536" by linarith+
    with Cons False show ?thesis by (simp add: utf16_units_astral)
  qed
qed

lemma escape_utf16_units:
  "concat (map escape_char (utf16_units s)) = concat (map escape_char s)"
proof (induction s)
  case Nil
  show ?case by (simp add: utf16_units_Nil)
next
  case (Cons c s)
  show ?case
  proof (cases "c < 0x10000")
    case True
    with Cons show ?thesis by (simp add: utf16_units_bmp)
  next
    case False
    then have "0x10000 \<le> c" by simp
    from escape_char_astral[OF this] Cons False show ?thesis
      by (simp add: utf16_units_astral escape_char_high[OF high_unit] escape_char_low[OF low_unit])
  qed
qed

lemma escape_joined:
  assumes "is_high_surrogate h" "is_low_surrogate l"
  shows "escape_char (0x10000 + ((h - 0xd800) * 1024 + (l - 0xdc00)))
         = escape_char h @ escape_char l"
proof -
  define a where "a = h - 0xd800"
  define b where "b = l - 0xdc00"
  have a: "a < 1024" "h = 0xd800 + a"
    using assms(1) unfolding a_def is_high_surrogate_def by linarith+
  have b: "b < 1024" "l = 0xdc00 + b"
    using assms(2) unfolding b_def is_low_surrogate_def by linarith+
  have d: "(a * 1024 + b) div 1024 mod 1024 = a" "(a * 1024 + b) mod 1024 = b"
    using a(1) b(1) by simp_all
  have "escape_char (0x10000 + (a * 1024 + b)) = u_escape (0xd800 + a) @ u_escape (0xdc00 + b)"
    using escape_char_astral[of "0x10000 + (a * 1024 + b)"] a(1) b(1) by simp
  then show ?thesis
    using assms by (simp add: escape_char_high escape_char_low a_def[symmetric] b_def[symmetric] a(2)[symmetric] b(2)[symmetric])
qed

lemma escape_join_surrogates:
  "concat (map escape_char (join_surrogates t)) = concat (map escape_char t)"
  by (induction t rule: join_surrogates.induct) (simp_all add: escape_joined)

lemma join_astral:
  assumes "\<not> c < 0x10000" "c < 0x110000"
  shows "join_surrogates
           ((0xd800 + (c - 0x10000) div 1024 mod 1024) # (0xdc00 + (c - 0x10000) mod 1024) # w)
         = c # join_surrogates w"
proof -
  define n where "n = c - 0x10000"
  have n: "n < 1048576" "c = 0x10000 + n" using assms unfolding n_def by linarith+
  then have "n div 1024 < 1024" by simp
  then have "n div 1024 mod 1024 = n div 1024" by simp
  moreover have "n div 1024 * 1024 + n mod 1024 = n" by (rule div_mult_mod_eq)
  ultimately have "65536 + (n div 1024 mod 1024 * 1024 + n mod 1024) = c"
    using n(2) by simp
  then show ?thesis
    using high_unit[of "n div 1024"] low_unit[of n] by (simp add: n_def[symmetric])
qed

lemma join_not_high:
  "\<not> is_high_surrogate c \<Longrightarrow> join_surrogates (c # w) = c # join_surrogates w"
  by (cases w) simp_all

lemma join_not_low:
  "\<not> is_low_surrogate l \<Longrightarrow> join_surrogates (c # l # w) = c # join_surrogates (l # w)"
  by simp

lemma high_not_low: "is_high_surrogate c \<Longrightarrow> \<not> is_low_surrogate c"
  by (simp add: is_high_surrogate_def is_low_surrogate_def)

lemma join_before_units:
  assumes "\<not> is_low_surrogate l"
  shows "join_surrogates (c # utf16_units (l # r)) = c # join_surrogates (utf16_units (l # r))"
proof (cases "l < 0x10000")
  case True
  with assms show ?thesis by (simp add: utf16_units_bmp)
next
  case False
  then show ?thesis
    by (simp add: utf16_units_astral high_not_low[OF high_unit])
qed

lemma join_utf16_units:
  "valid_pystr s \<Longrightarrow> \<not> adjacent_surrogates s \<Longrightarrow> join_surrogates (utf16_units s) = s"
proof (induction s rule: adjacent_surrogates.induct)
  case (1 h l r)
  from "1.prems" have v: "h < 0x110000" "valid_pystr (l # r)" by (simp_all add: valid_pystr_def)
  from "1.prems"(2) have na: "\<not> (is_high_surrogate h \<and> is_low_surrogate l)"
    "\<not> adjacent_surrogates (l # r)" by (auto split: if_splits)
  from "1.IH"[OF na(1) v(2) na(2)] have ih: "join_surrogates (utf16_units (l # r)) = l # r" .
  show ?case
  proof (cases "h < 0x10000")
    case False
    then show ?thesis by (simp only: utf16_units_astral[OF False] join_astral[OF False v(1)] ih)
  next
    case True
    show ?thesis
    proof (cases "is_high_surrogate h")
      case False
      show ?thesis by (simp only: utf16_units_bmp[OF True] join_not_high[OF False] ih)
    next
      case h: True
      with na(1) have nl: "\<not> is_low_surrogate l" by simp
      show ?thesis by (simp only: utf16_units_bmp[OF True] join_before_units[OF nl] ih)
    qed
  qed
next
  case (2 h)
  then have v: "h < 0x110000" by (simp add: valid_pystr_def)
  show ?case
  proof (cases "h < 0x10000")
    case False
    have "join_surrogates
            [0xd800 + (h - 0x10000) div 1024 mod 1024, 0xdc00 + (h - 0x10000) mod 1024]
          = h # join_surrogates []"
      by (rule join_astral[OF False v])
    then show ?thesis
      by (simp only: utf16_units_astral[OF False] utf16_units_Nil join_surrogates.simps(3))
  next
    case True
    then show ?thesis by (simp add: utf16_units_bmp utf16_units_Nil)
  qed
next
  case 3
  show ?case by (simp add: utf16_units_Nil)
qed

lemma scanstring_encoded:
  "scanstring (concat (map escape_char s) @ 34 # rest)
   = Inr (join_surrogates (utf16_units s), rest)"
  using scanstring_escaped[OF utf16_units_below, of s rest] by (simp only: escape_utf16_units)

section \<open>The text that is returned and how it is read back\<close>

lemma get_host_info_text:
  assumes "platform_system h = Inr a" "platform_machine h = Inr b" "platform_platform h = Inr c"
  shows "tools_get_host_info h = Inr (host_info_text a b c)"
  using assms
  by (simp add: tools_get_host_info_def py_dict_def pystr_of_def host_info_text_def
      py_encode_basestring_ascii_def escape_char_plain)

lemma get_host_info_cases:
  obtains (ok) a b c where "platform_system h = Inr a" "platform_machine h = Inr b"
      "platform_platform h = Inr c" "tools_get_host_info h = Inr (host_info_text a b c)"
  | (system) e where "platform_system h = Inl e" "tools_get_host_info h = Inl e"
  | (machine) a e where "platform_system h = Inr a" "platform_machine h = Inl e"
      "tools_get_host_info h = Inl e"
  | (platform) a b e where "platform_system h = Inr a" "platform_machine h = Inr b"
      "platform_platform h = Inl e" "tools_get_host_info h = Inl e"
proof (cases "platform_system h")
  case (Inl e)
  then show ?thesis by (intro system[of e]) (simp_all add: tools_get_host_info_def)
next
  case a: (Inr a)
  show ?thesis
  proof (cases "platform_machine h")
    case (Inl e)
    with a show ?thesis by (intro machine[of a e]) (simp_all add: tools_get_host_info_def)
  next
    case b: (Inr b)
    show ?thesis
    proof (cases "platform_platform h")
      case (Inl e)
      with a b show ?thesis
        by (intro platform[of a b e]) (simp_all add: tools_get_host_info_def)
    next
      case c: (Inr c)
      with a b show ?thesis by (intro ok[of a b c]) (simp_all add: get_host_info_text)
    qed
  qed
qed

lemma items_step:
  "JSONObject_items (Suc (Suc n)) pairs
     (concat (map escape_char k) @ 34 # 58 # 32 # 34 # concat (map escape_char v) @ 34 # w)
   = (case skip_ws w of
        [] \<Rightarrow> Inl JSONDecodeError
      | c2 # s4 \<Rightarrow>
          if c2 = 125 then
            Inr (PyDict (py_dict (pairs @ [(join_surrogates (utf16_units k),
                                            PyStr (join_surrogates (utf16_units v)))])), s4)
          else if c2 \<noteq> 44 then Inl JSONDecodeError
          else
            (case skip_ws s4 of
               [] \<Rightarrow> Inl JSONDecodeError
             | c3 # s5 \<Rightarrow>
                 if c3 \<noteq> 34 then Inl JSONDecodeError
                 else JSONObject_items (Suc n)
                        (pairs @ [(join_surrogates (utf16_units k),
                                   PyStr (join_surrogates (utf16_units v)))]) s5))"
  by (simp add: scanstring_encoded skip_ws_def WHITESPACE_def)

lemma items_more:
  "JSONObject_items (Suc (Suc n)) pairs
     (concat (map escape_char k) @ 34 # 58 # 32 # 34 # concat (map escape_char v)
        @ 34 # 44 # 32 # 34 # w)
   = JSONObject_items (Suc n)
       (pairs @ [(join_surrogates (utf16_units k), PyStr (join_surrogates (utf16_units v)))]) w"
  by (simp only: items_step) (simp add: skip_ws_def WHITESPACE_def)

lemma items_last:
  "JSONObject_items (Suc (Suc n)) pairs
     (concat (map escape_char k) @ 34 # 58 # 32 # 34 # concat (map escape_char v)
        @ 34 # 125 # rest)
   = Inr (PyDict (py_dict (pairs @ [(join_surrogates (utf16_units k),
                                     PyStr (join_surrogates (utf16_units v)))])), rest)"
  by (simp only: items_step) (simp add: skip_ws_def WHITESPACE_def)

lemma scan_three_strings:
  "scan_once (Suc (Suc (Suc (Suc (Suc n)))))
     (123 # 34 # concat (map escape_char k1) @ 34 # 58 # 32 # 34 # concat (map escape_char v1)
        @ 34 # 44 # 32 # 34 # concat (map escape_char k2) @ 34 # 58 # 32 # 34
        # concat (map escape_char v2)
        @ 34 # 44 # 32 # 34 # concat (map escape_char k3) @ 34 # 58 # 32 # 34
        # concat (map escape_char v3) @ 34 # 125 # rest)
   = Inr (PyDict (py_dict
        [(join_surrogates (utf16_units k1), PyStr (join_surrogates (utf16_units v1))),
         (join_surrogates (utf16_units k2), PyStr (join_surrogates (utf16_units v2))),
         (join_surrogates (utf16_units k3), PyStr (join_surrogates (utf16_units v3)))]), rest)"
proof -
  have "scan_once (Suc (Suc (Suc (Suc (Suc n))))) (123 # 34 # w)
        = JSONObject_items (Suc (Suc (Suc (Suc n)))) [] w" for w
    by (simp add: skip_ws_def WHITESPACE_def del: JSONObject_items.simps)
  then show ?thesis by (simp only: items_more items_last append_Nil append_Cons)
qed


lemma host_info_text_unfold:
  "host_info_text a b c =
     123 # 34 # concat (map escape_char (pystr_of ''os'')) @ 34 # 58 # 32 # 34
       # concat (map escape_char a)
       @ 34 # 44 # 32 # 34 # concat (map escape_char (pystr_of ''architecture'')) @ 34 # 58 # 32 # 34
       # concat (map escape_char b)
       @ 34 # 44 # 32 # 34 # concat (map escape_char (pystr_of ''platform'')) @ 34 # 58 # 32 # 34
       # concat (map escape_char c) @ 34 # 125 # []"
  by (simp add: host_info_text_def pystr_of_def py_encode_basestring_ascii_def escape_char_plain)

lemma decoded_keys:
  "join_surrogates (utf16_units (pystr_of ''os'')) = pystr_of ''os''"
  "join_surrogates (utf16_units (pystr_of ''architecture'')) = pystr_of ''architecture''"
  "join_surrogates (utf16_units (pystr_of ''platform'')) = pystr_of ''platform''"
  by (simp_all add: utf16_units_def pystr_of_def is_high_surrogate_def)

lemma py_dict_host_info:
  "py_dict [(pystr_of ''os'', x), (pystr_of ''architecture'', y), (pystr_of ''platform'', z)]
   = [(pystr_of ''os'', x), (pystr_of ''architecture'', y), (pystr_of ''platform'', z)]"
  by (simp add: py_dict_def pystr_of_def)

lemma loads_host_info_text:
  "json_loads (host_info_text a b c) =
     Inr (PyDict [(pystr_of ''os'', PyStr (join_surrogates (utf16_units a))),
                  (pystr_of ''architecture'', PyStr (join_surrogates (utf16_units b))),
                  (pystr_of ''platform'', PyStr (join_surrogates (utf16_units c)))])"
proof -
  define t where "t = host_info_text a b c"
  have "2 \<le> length t" unfolding t_def host_info_text_unfold by simp
  then obtain m where "length t = 2 + m" using nat_le_iff_add by blast
  then have n: "2 * length t + 2 = Suc (Suc (Suc (Suc (Suc (Suc (2 * m))))))" by simp
  have h: "take 1 t \<noteq> [0xfeff]" "skip_ws t = t"
    unfolding t_def host_info_text_unfold by (simp_all add: skip_ws_def WHITESPACE_def)
  have "scan_once (2 * length t + 2) (skip_ws t) =
     Inr (PyDict [(pystr_of ''os'', PyStr (join_surrogates (utf16_units a))),
                  (pystr_of ''architecture'', PyStr (join_surrogates (utf16_units b))),
                  (pystr_of ''platform'', PyStr (join_surrogates (utf16_units c)))], [])"
    unfolding n h(2) unfolding t_def host_info_text_unfold
    by (simp only: scan_three_strings decoded_keys py_dict_host_info)
  then show ?thesis
    using h(1) by (simp add: json_loads_def t_def[symmetric] skip_ws_def del: scan_once.simps)
qed

lemma dumps_host_info:
  "json_dumps (PyDict [(pystr_of ''os'', PyStr x), (pystr_of ''architecture'', PyStr y),
                       (pystr_of ''platform'', PyStr z)])
   = host_info_text x y z"
  by (simp add: pystr_of_def host_info_text_def py_encode_basestring_ascii_def escape_char_plain)

lemma encode_decoded:
  "py_encode_basestring_ascii (join_surrogates (utf16_units s)) = py_encode_basestring_ascii s"
  by (simp add: py_encode_basestring_ascii_def escape_join_surrogates escape_utf16_units)

lemma host_info_text_decoded:
  "host_info_text (join_surrogates (utf16_units a)) (join_surrogates (utf16_units b))
     (join_surrogates (utf16_units c)) = host_info_text a b c"
  by (simp add: host_info_text_def encode_decoded)

lemma join_surrogates_Nil_iff: "join_surrogates t = [] \<longleftrightarrow> t = []"
  by (induction t rule: join_surrogates.induct) simp_all

lemma utf16_units_Nil_iff: "utf16_units s = [] \<longleftrightarrow> s = []"
  by (cases s) (simp_all add: utf16_units_def)

lemma main_get_host_info_eq: "main_get_host_info h = tools_get_host_info h"
  by (simp add: main_get_host_info_def tools_get_host_info_def)

lemma scenario_A_text:
  "tools_get_host_info scenario_A =
     Inr (host_info_text (pystr_of ''Linux'') (pystr_of ''x86_64'')
            (pystr_of ''Linux-5.15.0-x86_64-with-glibc2.31''))"
  by (rule get_host_info_text) (simp_all add: scenario_A_def)

lemma get_host_info_Inr:
  assumes "tools_get_host_info h = Inr s"
  obtains a b c where "platform_system h = Inr a" "platform_machine h = Inr b"
    "platform_platform h = Inr c" "s = host_info_text a b c"
  using assms by (cases h rule: get_host_info_cases) auto

lemma is_u_escape_u_escape: "n < 65536 \<Longrightarrow> is_u_escape (u_escape n)"
proof -
  assume n: "n < 65536"
  then have "n div 4096 < 16" by simp
  then show ?thesis
    by (simp add: u_escape_def format_04x_eq[OF n] hex_value_hex_digit)
qed

lemma length_u_escape: "n < 65536 \<Longrightarrow> length (u_escape n) = 6"
  by (simp add: u_escape_def length_format_04x)

lemma non_ascii_escaped:
  assumes "128 \<le> c"
  shows "is_u_escape (escape_char c)
       \<or> (is_u_escape (take 6 (escape_char c)) \<and> is_u_escape (drop 6 (escape_char c)))"
proof (cases "c < 0x10000")
  case True
  with assms show ?thesis by (simp add: escape_char_u is_u_escape_u_escape)
next
  case False
  define s1 where "s1 = 0xd800 + (c - 0x10000) div 1024 mod 1024"
  define s2 where "s2 = 0xdc00 + (c - 0x10000) mod 1024"
  have e: "escape_char c = u_escape s1 @ u_escape s2"
    using False by (simp add: escape_char_astral s1_def s2_def)
  have "(c - 0x10000) div 1024 mod 1024 < 1024" "(c - 0x10000) mod 1024 < 1024" by simp_all
  then have b: "s1 < 65536" "s2 < 65536" unfolding s1_def s2_def by linarith+
  show ?thesis
    by (simp add: e length_u_escape[OF b(1)] is_u_escape_u_escape[OF b(1)]
        is_u_escape_u_escape[OF b(2)])
qed

lemma printable_pystr_of_ascii: "list_all printable (host_info_text a b c)"
  by (simp add: host_info_text_def encode_printable) (simp add: pystr_of_def printable_def)

section \<open>Properties of the state-passing form\<close>

lemma run_is_function_of_reports:
  "fst (run_get_host_info st) = tools_get_host_info (reports st)"
  by (auto simp: run_get_host_info_def run_system_def run_machine_def run_platform_def
      run_uname_def reports_def tools_get_host_info_def Let_def
      simp del: json_dumps.simps split: option.splits sum.splits prod.splits)

lemma reports_after_run: "reports (snd (run_get_host_info st)) = reports st"
  by (auto simp: run_get_host_info_def run_system_def run_machine_def run_platform_def
      run_uname_def reports_def Let_def
      simp del: json_dumps.simps split: option.splits sum.splits prod.splits)

section \<open>Further properties of the escapes and of plain strings\<close>

lemma not_adjacent_without_high:
  "list_all (\<lambda>c. \<not> is_high_surrogate c) s \<Longrightarrow> \<not> adjacent_surrogates s"
  by (induction s rule: adjacent_surrogates.induct) simp_all

lemma decoded_plain:
  "list_all (\<lambda>c. c < 0xd800) s \<Longrightarrow> join_surrogates (utf16_units s) = s"
proof (rule join_utf16_units)
  assume a: "list_all (\<lambda>c. c < 0xd800) s"
  then show "valid_pystr s"
    unfolding valid_pystr_def by (rule list.pred_mono_strong) simp
  from a show "\<not> adjacent_surrogates s"
    by (induction s rule: adjacent_surrogates.induct) (simp_all add: is_high_surrogate_def)
qed

lemma bmp_escape_own:
  assumes "128 \<le> c" "c < 0x10000"
  shows "is_u_escape (escape_char c) \<and> decode_uXXXX (drop 2 (escape_char c)) = Some c"
proof -
  from assms have e: "escape_char c = u_escape c" by (simp add: escape_char_u)
  from assms(2) have n: "c < 65536" by simp
  show ?thesis
    by (simp add: e is_u_escape_u_escape[OF n]) (simp add: u_escape_def decode_format_04x[OF n])
qed

lemma astral_escape_own:
  assumes "0x10000 \<le> c" "c < 0x110000"
  shows "is_u_escape (take 6 (escape_char c)) \<and> is_u_escape (drop 6 (escape_char c))
     \<and> (\<exists>h l. decode_uXXXX (take 4 (drop 2 (escape_char c))) = Some h
            \<and> decode_uXXXX (drop 8 (escape_char c)) = Some l
            \<and> is_high_surrogate h \<and> is_low_surrogate l
            \<and> c = 0x10000 + ((h - 0xd800) * 1024 + (l - 0xdc00)))"
proof -
  define h where "h = 0xd800 + (c - 0x10000) div 1024 mod 1024"
  define l where "l = 0xdc00 + (c - 0x10000) mod 1024"
  have e: "escape_char c = u_escape h @ u_escape l"
    using assms(1) by (simp add: escape_char_astral h_def l_def)
  have hl: "is_high_surrogate h" "is_low_surrogate l"
    unfolding h_def l_def by (rule high_unit, rule low_unit)
  then have b: "h < 65536" "l < 65536"
    by (simp_all add: is_high_surrogate_def is_low_surrogate_def)
  have nb: "\<not> c < 0x10000" using assms(1) by simp
  have "join_surrogates [h, l] = c # join_surrogates []"
    unfolding h_def l_def by (rule join_astral[OF nb assms(2)])
  with hl have c: "c = 0x10000 + ((h - 0xd800) * 1024 + (l - 0xdc00))" by simp
  have t: "take 6 (escape_char c) = u_escape h" "drop 6 (escape_char c) = u_escape l"
    by (simp_all add: e length_u_escape[OF b(1)])
  have d1: "take 4 (drop 2 (escape_char c)) = format_04x h"
    by (simp add: e u_escape_def length_format_04x[OF b(1)])
  have d2: "drop 8 (escape_char c) = format_04x l"
    by (simp add: e u_escape_def length_format_04x[OF b(1)])
  show ?thesis
    unfolding t d1 d2
    by (intro conjI exI) (rule is_u_escape_u_escape[OF b(1)], rule is_u_escape_u_escape[OF b(2)],
        rule decode_format_04x[OF b(1)], rule decode_format_04x[OF b(2)], rule hl(1), rule hl(2),
        rule c)
qed

section \<open>The claims\<close>

text \<open>
  C1 (schema). Whenever \<open>get_host_info\<close> (of \<open>src/tools.py\<close> or of \<open>src/main.py\<close>)
  returns, all three calls to the \<open>platform\<close> module have returned strings, and the
  returned text parses as a JSON object with exactly the keys \<open>os\<close>, \<open>architecture\<close>,
  \<open>platform\<close>, each mapped to a string. That string is the reported one, unchanged, for
  every string the operating system facility delivers: code points up to \<open>0x10FFFF\<close>,
  and no high surrogate directly followed by a low surrogate (bytes decoded with the
  \<open>surrogateescape\<close> handler yield lone low surrogates only, and a surrogate pair of a wide
  string arrives as one code point).
\<close>

theorem parsed_object_schema:
  assumes "tools_get_host_info h = Inr s \<or> main_get_host_info h = Inr s"
  shows "\<exists>a b c a' b' c'.
     platform_system h = Inr a \<and> platform_machine h = Inr b \<and> platform_platform h = Inr c
     \<and> json_loads s = Inr (PyDict [(pystr_of ''os'', PyStr a'),
                                    (pystr_of ''architecture'', PyStr b'),
                                    (pystr_of ''platform'', PyStr c')])
     \<and> (valid_pystr a \<and> \<not> adjacent_surrogates a \<longrightarrow> a' = a)
     \<and> (valid_pystr b \<and> \<not> adjacent_surrogates b \<longrightarrow> b' = b)
     \<and> (valid_pystr c \<and> \<not> adjacent_surrogates c \<longrightarrow> c' = c)"
proof -
  from assms have "tools_get_host_info h = Inr s" by (simp add: main_get_host_info_eq)
  then obtain a b c where abc: "platform_system h = Inr a" "platform_machine h = Inr b"
    "platform_platform h = Inr c" "s = host_info_text a b c"
    by (rule get_host_info_Inr)
  show ?thesis
    using abc(1-3) loads_host_info_text[of a b c] join_utf16_units
    unfolding abc(4) by blast
qed

text \<open>The theorem applied to the host of Scenario A.\<close>

theorem parsed_object_schema_witness:
  "tools_get_host_info scenario_A =
     Inr (host_info_text (pystr_of ''Linux'') (pystr_of ''x86_64'')
            (pystr_of ''Linux-5.15.0-x86_64-with-glibc2.31''))
   \<and> json_loads (host_info_text (pystr_of ''Linux'') (pystr_of ''x86_64'')
            (pystr_of ''Linux-5.15.0-x86_64-with-glibc2.31'')) =
       Inr (PyDict [(pystr_of ''os'', PyStr (pystr_of ''Linux'')),
                    (pystr_of ''architecture'', PyStr (pystr_of ''x86_64'')),
                    (pystr_of ''platform'', PyStr (pystr_of ''Linux-5.15.0-x86_64-with-glibc2.31''))])"
proof -
  have v: "valid_pystr (pystr_of ''Linux'') \<and> \<not> adjacent_surrogates (pystr_of ''Linux'')"
    "valid_pystr (pystr_of ''x86_64'') \<and> \<not> adjacent_surrogates (pystr_of ''x86_64'')"
    "valid_pystr (pystr_of ''Linux-5.15.0-x86_64-with-glibc2.31'')
     \<and> \<not> adjacent_surrogates (pystr_of ''Linux-5.15.0-x86_64-with-glibc2.31'')"
    by (simp_all add: valid_pystr_def pystr_of_def is_high_surrogate_def)
  have f: "platform_system scenario_A = Inr (pystr_of ''Linux'')"
    "platform_machine scenario_A = Inr (pystr_of ''x86_64'')"
    "platform_platform scenario_A = Inr (pystr_of ''Linux-5.15.0-x86_64-with-glibc2.31'')"
    by (simp_all add: scenario_A_def)
  from parsed_object_schema[OF disjI1[OF scenario_A_text]] v show ?thesis
    unfolding f by (auto simp: scenario_A_text)
qed

text \<open>
  C2 (Scenario A). On the host that reports system \<open>Linux\<close>, machine \<open>x86_64\<close> and platform
  \<open>Linux-5.15.0-x86_64-with-glibc2.31\<close>, \<open>get_host_info\<close> returns exactly the text
  \<open>{"os": "Linux", "architecture": "x86_64", "platform": "Linux-5.15.0-x86_64-with-glibc2.31"}\<close>,
  character for character, separators and spaces included.
\<close>

theorem scenario_A_output:
  \<open>tools_get_host_info scenario_A =
     Inr (pystr_of ''{"os": "Linux", "architecture": "x86_64", "platform": "Linux-5.15.0-x86_64-with-glibc2.31"}'')\<close>
  by (simp add: tools_get_host_info_def scenario_A_def py_dict_def pystr_of_def
      py_encode_basestring_ascii_def escape_char_plain)

text \<open>
  C3 (determinism). Within one interpreter a second invocation of \<open>get_host_info\<close>
  directly after the first gives the same result, character for character (or the same
  exception), although the first may have filled the caches of the \<open>platform\<close> module.
  More generally, any two invocations, in whatever states of the interpreter and of the
  operating system, give the same result as soon as the three functions report the same
  values in both: the result is what the function of \<open>src/tools.py\<close> computes from these
  three values and from nothing else.
\<close>

theorem get_host_info_deterministic:
  "fst (run_get_host_info (snd (run_get_host_info st))) = fst (run_get_host_info st)
   \<and> (reports st = reports st' \<longrightarrow> fst (run_get_host_info st) = fst (run_get_host_info st'))
   \<and> fst (run_get_host_info st) = tools_get_host_info (reports st)"
proof (intro conjI impI)
  show "fst (run_get_host_info (snd (run_get_host_info st))) = fst (run_get_host_info st)"
    by (simp only: run_is_function_of_reports reports_after_run)
next
  assume "reports st = reports st'"
  then show "fst (run_get_host_info st) = fst (run_get_host_info st')"
    by (simp only: run_is_function_of_reports)
next
  show "fst (run_get_host_info st) = tools_get_host_info (reports st)"
    by (rule run_is_function_of_reports)
qed

text \<open>
  The theorem applied to the fresh and the warm interpreter, which report the same values
  from different caches and a different operating system.
\<close>

theorem get_host_info_deterministic_witness:
  "reports fresh_interpreter = scenario_A \<and> reports warm_interpreter = scenario_A
   \<and> uname_cache fresh_interpreter \<noteq> uname_cache warm_interpreter
   \<and> os_uname (os fresh_interpreter) \<noteq> os_uname (os warm_interpreter)
   \<and> fst (run_get_host_info fresh_interpreter) = fst (run_get_host_info warm_interpreter)"
proof -
  have f: "reports fresh_interpreter = scenario_A"
    by (simp add: reports_def fresh_interpreter_def run_system_def run_machine_def
        run_platform_def run_uname_def scenario_A_def pystr_of_def)
  have w: "reports warm_interpreter = scenario_A"
    by (simp add: reports_def warm_interpreter_def run_system_def run_machine_def
        run_platform_def run_uname_def scenario_A_def)
  have d: "uname_cache fresh_interpreter \<noteq> uname_cache warm_interpreter"
    "os_uname (os fresh_interpreter) \<noteq> os_uname (os warm_interpreter)"
    by (simp_all add: fresh_interpreter_def warm_interpreter_def)
  from f w have "reports fresh_interpreter = reports warm_interpreter" by (simp only:)
  with get_host_info_deterministic[of fresh_interpreter warm_interpreter]
  have "fst (run_get_host_info fresh_interpreter) = fst (run_get_host_info warm_interpreter)"
    by (elim conjE) (erule mp)
  with f w d show ?thesis by (intro conjI)
qed

text \<open>
  C4 (key order). Every text that \<open>get_host_info\<close> returns, in \<open>src/tools.py\<close> and in
  \<open>src/main.py\<close>, consists of the key \<open>os\<close> and its value, then \<open>architecture\<close> and its
  value, then \<open>platform\<close> and its value; read back in document order, the keys of the
  object are \<open>os\<close>, \<open>architecture\<close>, \<open>platform\<close>.
\<close>

theorem keys_in_order:
  assumes "tools_get_host_info h = Inr s \<or> main_get_host_info h = Inr s"
  shows \<open>\<exists>a b c d.
     s = pystr_of ''{"os": '' @ py_encode_basestring_ascii a
         @ pystr_of '', "architecture": '' @ py_encode_basestring_ascii b
         @ pystr_of '', "platform": '' @ py_encode_basestring_ascii c
         @ pystr_of ''}''
     \<and> json_loads s = Inr (PyDict d)
     \<and> map fst d = [pystr_of ''os'', pystr_of ''architecture'', pystr_of ''platform'']\<close>
proof -
  from assms have "tools_get_host_info h = Inr s" by (simp add: main_get_host_info_eq)
  then obtain a b c where abc: "s = host_info_text a b c"
    by (rule get_host_info_Inr)
  have t: \<open>host_info_text a b c =
         pystr_of ''{"os": '' @ py_encode_basestring_ascii a
         @ pystr_of '', "architecture": '' @ py_encode_basestring_ascii b
         @ pystr_of '', "platform": '' @ py_encode_basestring_ascii c
         @ pystr_of ''}''\<close>
    by (simp only: host_info_text_def)
  have m: "map fst [(pystr_of ''os'', PyStr (join_surrogates (utf16_units a))),
                 (pystr_of ''architecture'', PyStr (join_surrogates (utf16_units b))),
                 (pystr_of ''platform'', PyStr (join_surrogates (utf16_units c)))]
        = [pystr_of ''os'', pystr_of ''architecture'', pystr_of ''platform'']"
    by (simp only: list.map fst_conv)
  show ?thesis
    unfolding abc by (intro exI conjI) (rule t, rule loads_host_info_text, rule m)
qed

text \<open>The theorem applied to the host of Scenario A.\<close>

theorem keys_in_order_witness:
  \<open>tools_get_host_info scenario_A =
     Inr (host_info_text (pystr_of ''Linux'') (pystr_of ''x86_64'')
            (pystr_of ''Linux-5.15.0-x86_64-with-glibc2.31''))
   \<and> (\<exists>a b c d.
     host_info_text (pystr_of ''Linux'') (pystr_of ''x86_64'')
            (pystr_of ''Linux-5.15.0-x86_64-with-glibc2.31'') =
         pystr_of ''{"os": '' @ py_encode_basestring_ascii a
         @ pystr_of '', "architecture": '' @ py_encode_basestring_ascii b
         @ pystr_of '', "platform": '' @ py_encode_basestring_ascii c
         @ pystr_of ''}''
     \<and> json_loads (host_info_text (pystr_of ''Linux'') (pystr_of ''x86_64'')
            (pystr_of ''Linux-5.15.0-x86_64-with-glibc2.31'')) = Inr (PyDict d)
     \<and> map fst d = [pystr_of ''os'', pystr_of ''architecture'', pystr_of ''platform''])\<close>
  using keys_in_order[OF disjI1[OF scenario_A_text]] scenario_A_text by (intro conjI)

text \<open>
  C5 (the two functions agree). On every host the function of \<open>src/main.py\<close> and the
  function of \<open>src/tools.py\<close> give the same result: the same string, or the same
  exception, so one fails exactly when the other does. This holds for the module-level
  name \<open>get_host_info\<close> of \<open>src/main.py\<close> after decoration and for the one function
  registered with the server.
\<close>

theorem main_equals_tools:
  "main_get_host_info h = tools_get_host_info h
   \<and> snd main_module h = tools_get_host_info h
   \<and> map (\<lambda>(fn_name, fn). (fn_name, fn h)) (tools (fst main_module))
       = [(''get_host_info'', tools_get_host_info h)]
   \<and> isl (main_get_host_info h) = isl (tools_get_host_info h)"
  by (simp add: main_module_def FastMCP_tool_def main_get_host_info_def tools_get_host_info_def)

text \<open>
  C6 (Scenario B). Run as the main module, \<open>src/tools.py\<close> writes to standard output
  exactly the text that \<open>get_host_info\<close> returns, followed by one newline, and the
  process ends with status 0.
\<close>

theorem standalone_prints:
  assumes "tools_get_host_info h = Inr s"
  shows "tools_module ''__main__'' h = \<lparr>stdout = s @ [10], uncaught = None, exit_status = 0\<rparr>"
  using assms by (simp add: tools_module_def)

text \<open>The theorem applied to the host of Scenario A.\<close>

theorem standalone_prints_witness:
  "tools_get_host_info scenario_A =
     Inr (host_info_text (pystr_of ''Linux'') (pystr_of ''x86_64'')
            (pystr_of ''Linux-5.15.0-x86_64-with-glibc2.31''))
   \<and> tools_module ''__main__'' scenario_A =
     \<lparr>stdout = host_info_text (pystr_of ''Linux'') (pystr_of ''x86_64'')
            (pystr_of ''Linux-5.15.0-x86_64-with-glibc2.31'') @ [10],
      uncaught = None, exit_status = 0\<rparr>"
  using standalone_prints[OF scenario_A_text] scenario_A_text by (intro conjI)

text \<open>
  C7 (error propagation). If one of the three calls to the \<open>platform\<close> module raises,
  \<open>get_host_info\<close> ends with that very exception (the one of the first call that
  raises, since the later calls never run) and returns no string at all.
\<close>

theorem error_propagates:
  assumes "isl (platform_system h) \<or> isl (platform_machine h) \<or> isl (platform_platform h)"
  shows "tools_get_host_info h =
           Inl (if isl (platform_system h) then projl (platform_system h)
                else if isl (platform_machine h) then projl (platform_machine h)
                else projl (platform_platform h))
       \<and> (\<forall>s. tools_get_host_info h \<noteq> Inr s)"
  using assms by (cases h rule: get_host_info_cases) auto

text \<open>The theorem applied to the host on which \<open>platform.machine()\<close> raises.\<close>

theorem error_propagates_witness:
  "(isl (platform_system failing_host) \<or> isl (platform_machine failing_host)
      \<or> isl (platform_platform failing_host))
   \<and> tools_get_host_info failing_host = Inl (PyException ''OSError'' ''uname failed'')
   \<and> (\<forall>s. tools_get_host_info failing_host \<noteq> Inr s)"
proof -
  have f: "isl (platform_system failing_host) \<or> isl (platform_machine failing_host)
      \<or> isl (platform_platform failing_host)"
    by (simp add: failing_host_def)
  from error_propagates[OF f] f show ?thesis by (simp add: failing_host_def)
qed

text \<open>
  C8 (non-empty fields), as amended. \<open>get_host_info\<close> does not check its values: whenever it
  returns, each of the three field values of the parsed JSON object is empty exactly when
  the value reported for it is empty. So the fields are non-empty on the hosts whose three
  reported values are non-empty, and on no others.
\<close>

theorem fields_empty_iff_reported_empty:
  assumes "tools_get_host_info h = Inr s"
  shows "\<exists>a b c x y z.
     platform_system h = Inr a \<and> platform_machine h = Inr b \<and> platform_platform h = Inr c
     \<and> json_loads s = Inr (PyDict [(pystr_of ''os'', PyStr x),
                                    (pystr_of ''architecture'', PyStr y),
                                    (pystr_of ''platform'', PyStr z)])
     \<and> (x = [] \<longleftrightarrow> a = []) \<and> (y = [] \<longleftrightarrow> b = []) \<and> (z = [] \<longleftrightarrow> c = [])"
proof -
  from assms obtain a b c where abc: "platform_system h = Inr a" "platform_machine h = Inr b"
    "platform_platform h = Inr c" "s = host_info_text a b c"
    by (rule get_host_info_Inr)
  have e: "join_surrogates (utf16_units t) = [] \<longleftrightarrow> t = []" for t
    by (simp add: join_surrogates_Nil_iff utf16_units_Nil_iff)
  show ?thesis
    unfolding abc(4)
    by (intro exI conjI) (rule abc(1), rule abc(2), rule abc(3), rule loads_host_info_text,
        rule e, rule e, rule e)
qed

text \<open>The theorem applied to the host of Scenario A.\<close>

theorem fields_empty_iff_reported_empty_witness:
  "tools_get_host_info scenario_A =
     Inr (host_info_text (pystr_of ''Linux'') (pystr_of ''x86_64'')
            (pystr_of ''Linux-5.15.0-x86_64-with-glibc2.31''))
   \<and> (\<exists>a b c x y z.
     platform_system scenario_A = Inr a \<and> platform_machine scenario_A = Inr b
     \<and> platform_platform scenario_A = Inr c
     \<and> json_loads (host_info_text (pystr_of ''Linux'') (pystr_of ''x86_64'')
            (pystr_of ''Linux-5.15.0-x86_64-with-glibc2.31'')) =
         Inr (PyDict [(pystr_of ''os'', PyStr x),
                      (pystr_of ''architecture'', PyStr y),
                      (pystr_of ''platform'', PyStr z)])
     \<and> (x = [] \<longleftrightarrow> a = []) \<and> (y = [] \<longleftrightarrow> b = []) \<and> (z = [] \<longleftrightarrow> c = []))"
  using fields_empty_iff_reported_empty[OF scenario_A_text] scenario_A_text by (intro conjI)

text \<open>
  On the host whose machine type cannot be determined the call succeeds and the field
  \<open>architecture\<close> is the empty string.
\<close>

theorem empty_machine_gives_empty_field:
  \<open>platform_machine undetermined_host = Inr []
   \<and> tools_get_host_info undetermined_host =
       Inr (pystr_of ''{"os": "Linux", "architecture": "", "platform": "Linux-5.15.0-with-glibc2.31"}'')
   \<and> json_loads (pystr_of ''{"os": "Linux", "architecture": "", "platform": "Linux-5.15.0-with-glibc2.31"}'') =
       Inr (PyDict [(pystr_of ''os'', PyStr (pystr_of ''Linux'')),
                    (pystr_of ''architecture'', PyStr []),
                    (pystr_of ''platform'', PyStr (pystr_of ''Linux-5.15.0-with-glibc2.31''))])\<close>
proof -
  have t: \<open>host_info_text (pystr_of ''Linux'') [] (pystr_of ''Linux-5.15.0-with-glibc2.31'') =
      pystr_of ''{"os": "Linux", "architecture": "", "platform": "Linux-5.15.0-with-glibc2.31"}''\<close>
    by (simp add: host_info_text_def py_encode_basestring_ascii_def escape_char_plain pystr_of_def)
  have g: "tools_get_host_info undetermined_host =
      Inr (host_info_text (pystr_of ''Linux'') [] (pystr_of ''Linux-5.15.0-with-glibc2.31''))"
    by (rule get_host_info_text) (simp_all add: undetermined_host_def)
  have d: "join_surrogates (utf16_units (pystr_of ''Linux'')) = pystr_of ''Linux''"
    "join_surrogates (utf16_units []) = []"
    "join_surrogates (utf16_units (pystr_of ''Linux-5.15.0-with-glibc2.31''))
       = pystr_of ''Linux-5.15.0-with-glibc2.31''"
    by (rule decoded_plain, simp add: pystr_of_def)+
  have l: "json_loads (host_info_text (pystr_of ''Linux'') [] (pystr_of ''Linux-5.15.0-with-glibc2.31'')) =
       Inr (PyDict [(pystr_of ''os'', PyStr (pystr_of ''Linux'')),
                    (pystr_of ''architecture'', PyStr []),
                    (pystr_of ''platform'', PyStr (pystr_of ''Linux-5.15.0-with-glibc2.31''))])"
    by (simp only: loads_host_info_text d)
  have m: "platform_machine undetermined_host = Inr []" by (simp add: undetermined_host_def)
  from m g l show ?thesis unfolding t by (intro conjI)
qed

text \<open>
  C9 (round trip). Every text that \<open>get_host_info\<close> returns can be parsed, and serialising
  the parsed object again (its keys in the order in which they were read, same settings)
  gives back the text exactly.
\<close>

theorem round_trip:
  assumes "tools_get_host_info h = Inr s"
  shows "\<exists>v. json_loads s = Inr v \<and> json_dumps v = s"
proof -
  from assms obtain a b c where abc: "s = host_info_text a b c"
    by (rule get_host_info_Inr)
  have "json_dumps (PyDict [(pystr_of ''os'', PyStr (join_surrogates (utf16_units a))),
           (pystr_of ''architecture'', PyStr (join_surrogates (utf16_units b))),
           (pystr_of ''platform'', PyStr (join_surrogates (utf16_units c)))]) = s"
    by (simp only: dumps_host_info host_info_text_decoded abc)
  with loads_host_info_text[of a b c] show ?thesis
    unfolding abc by (intro exI conjI)
qed

text \<open>The theorem applied to the host of Scenario A.\<close>

theorem round_trip_witness:
  "tools_get_host_info scenario_A =
     Inr (host_info_text (pystr_of ''Linux'') (pystr_of ''x86_64'')
            (pystr_of ''Linux-5.15.0-x86_64-with-glibc2.31''))
   \<and> (\<exists>v. json_loads (host_info_text (pystr_of ''Linux'') (pystr_of ''x86_64'')
            (pystr_of ''Linux-5.15.0-x86_64-with-glibc2.31'')) = Inr v
          \<and> json_dumps v = host_info_text (pystr_of ''Linux'') (pystr_of ''x86_64'')
            (pystr_of ''Linux-5.15.0-x86_64-with-glibc2.31''))"
  using round_trip[OF scenario_A_text] scenario_A_text by simp

text \<open>
  C10 (ASCII output). Every text that \<open>get_host_info\<close> returns, in \<open>src/tools.py\<close> and
  in \<open>src/main.py\<close>, consists of ASCII characters only. It is made of the fixed
  punctuation and keys and, for each code point of a reported value, the text
  \<open>escape_char\<close> gives for it. For a code point from 128 on that text is an escape
  (backslash, \<open>u\<close>, four hexadecimal digits) of the code point itself: the four digits
  are its number below \<open>0x10000\<close>, and from there up to \<open>0x10FFFF\<close> there are two
  escapes whose numbers are the high and the low surrogate that encode it.
\<close>

theorem output_is_ascii:
  assumes "tools_get_host_info h = Inr s \<or> main_get_host_info h = Inr s"
  shows \<open>list_all (\<lambda>c. c < 128) s
     \<and> (\<exists>a b c. platform_system h = Inr a \<and> platform_machine h = Inr b
           \<and> platform_platform h = Inr c
           \<and> s = pystr_of ''{"os": "'' @ concat (map escape_char a)
               @ pystr_of ''", "architecture": "'' @ concat (map escape_char b)
               @ pystr_of ''", "platform": "'' @ concat (map escape_char c)
               @ pystr_of ''"}'')
     \<and> (\<forall>c. 128 \<le> c \<longrightarrow>
           is_u_escape (escape_char c)
           \<or> (is_u_escape (take 6 (escape_char c)) \<and> is_u_escape (drop 6 (escape_char c))))
     \<and> (\<forall>c. 128 \<le> c \<and> c < 0x10000 \<longrightarrow>
           is_u_escape (escape_char c) \<and> decode_uXXXX (drop 2 (escape_char c)) = Some c)
     \<and> (\<forall>c. 0x10000 \<le> c \<and> c < 0x110000 \<longrightarrow>
           is_u_escape (take 6 (escape_char c)) \<and> is_u_escape (drop 6 (escape_char c))
           \<and> (\<exists>hi lo. decode_uXXXX (take 4 (drop 2 (escape_char c))) = Some hi
                  \<and> decode_uXXXX (drop 8 (escape_char c)) = Some lo
                  \<and> is_high_surrogate hi \<and> is_low_surrogate lo
                  \<and> c = 0x10000 + ((hi - 0xd800) * 1024 + (lo - 0xdc00))))\<close>
proof -
  from assms have "tools_get_host_info h = Inr s" by (simp add: main_get_host_info_eq)
  then obtain a b c where abc: "platform_system h = Inr a" "platform_machine h = Inr b"
    "platform_platform h = Inr c" "s = host_info_text a b c"
    by (rule get_host_info_Inr)
  have "list_all printable s" unfolding abc(4) by (rule printable_pystr_of_ascii)
  then have 1: "list_all (\<lambda>c. c < 128) s"
    by (rule list.pred_mono_strong) (simp add: printable_def)
  have 2: \<open>s = pystr_of ''{"os": "'' @ concat (map escape_char a)
               @ pystr_of ''", "architecture": "'' @ concat (map escape_char b)
               @ pystr_of ''", "platform": "'' @ concat (map escape_char c)
               @ pystr_of ''"}''\<close>
    unfolding abc(4)
    by (simp add: host_info_text_def py_encode_basestring_ascii_def pystr_of_def)
  have 3: "\<forall>c. 128 \<le> c \<longrightarrow>
           is_u_escape (escape_char c)
           \<or> (is_u_escape (take 6 (escape_char c)) \<and> is_u_escape (drop 6 (escape_char c)))"
    by (intro allI impI) (rule non_ascii_escaped)
  have 4: "\<forall>c. 128 \<le> c \<and> c < 0x10000 \<longrightarrow>
           is_u_escape (escape_char c) \<and> decode_uXXXX (drop 2 (escape_char c)) = Some c"
    by (intro allI impI, elim conjE) (rule bmp_escape_own)
  have 5: "\<forall>c. 0x10000 \<le> c \<and> c < 0x110000 \<longrightarrow>
           is_u_escape (take 6 (escape_char c)) \<and> is_u_escape (drop 6 (escape_char c))
           \<and> (\<exists>hi lo. decode_uXXXX (take 4 (drop 2 (escape_char c))) = Some hi
                  \<and> decode_uXXXX (drop 8 (escape_char c)) = Some lo
                  \<and> is_high_surrogate hi \<and> is_low_surrogate lo
                  \<and> c = 0x10000 + ((hi - 0xd800) * 1024 + (lo - 0xdc00)))"
    by (intro allI impI, elim conjE) (rule astral_escape_own)
  from abc(1-3) 2 have \<open>\<exists>a b c. platform_system h = Inr a \<and> platform_machine h = Inr b
           \<and> platform_platform h = Inr c
           \<and> s = pystr_of ''{"os": "'' @ concat (map escape_char a)
               @ pystr_of ''", "architecture": "'' @ concat (map escape_char b)
               @ pystr_of ''", "platform": "'' @ concat (map escape_char c)
               @ pystr_of ''"}''\<close>
    by (intro exI conjI)
  with 1 3 4 5 show ?thesis by (intro conjI)
qed

text \<open>
  The theorem applied to the host of Scenario A, and to the code points 233 and
  \<open>0x1F600\<close>.
\<close>

theorem output_is_ascii_witness:
  \<open>tools_get_host_info scenario_A =
     Inr (host_info_text (pystr_of ''Linux'') (pystr_of ''x86_64'')
            (pystr_of ''Linux-5.15.0-x86_64-with-glibc2.31''))
   \<and> list_all (\<lambda>c. c < 128) (host_info_text (pystr_of ''Linux'') (pystr_of ''x86_64'')
            (pystr_of ''Linux-5.15.0-x86_64-with-glibc2.31''))
   \<and> (128 \<le> (233::nat) \<and> (233::nat) < 0x10000
        \<and> escape_char 233 = [92, 117, 48, 48, 101, 57]
        \<and> is_u_escape (escape_char 233)
        \<and> decode_uXXXX (drop 2 (escape_char 233)) = Some 233)
   \<and> (0x10000 \<le> (0x1F600::nat) \<and> (0x1F600::nat) < 0x110000
        \<and> escape_char 0x1F600 = [92, 117, 100, 56, 51, 100, 92, 117, 100, 101, 48, 48]
        \<and> decode_uXXXX (take 4 (drop 2 (escape_char 0x1F600))) = Some 0xd83d
        \<and> decode_uXXXX (drop 8 (escape_char 0x1F600)) = Some 0xde00)\<close>
proof -
  have e: "escape_char 233 = [92, 117, 48, 48, 101, 57]"
    by (simp add: escape_char_u u_escape_def format_04x_eq hex_digit_def)
  have a: "escape_char 0x1F600 = [92, 117, 100, 56, 51, 100, 92, 117, 100, 101, 48, 48]"
    by (simp add: escape_char_astral u_escape_def format_04x_eq hex_digit_def)
  from output_is_ascii[OF disjI1[OF scenario_A_text]] scenario_A_text show ?thesis
    by (simp add: e a hex_value_def decode_uXXXX_def)
qed

end
